theory Spec2Isabelle
  imports Main "HOL-Library.AList"
begin

section \<open>Python values used by the proxy router\<close>

text \<open>
  The module \<^verbatim>\<open>openhands/app_server/websocket_proxy/websocket_proxy_router.py\<close> is
  embedded function by function. A Python \<^verbatim>\<open>str\<close> is a \<^typ>\<open>string\<close>: a list of 8-bit
  characters, read as the code points U+0000 to U+00FF (the range of header names and
  values, which the ASGI server decodes as latin-1). \<^verbatim>\<open>None\<close> is \<^term>\<open>None\<close>, a raised
  exception is the left injection of a sum.
\<close>

datatype exn =
    ValueError
  | WebSocketDisconnect
  | ConnectionClosed
  | ConnectionClosedError
  | ConnectionRefusedError
  | TimeoutException
  | ConnectError
  | RuntimeError
  | OtherException string
  | CancelledError

text \<open>
  \<^verbatim>\<open>asyncio.CancelledError\<close> derives from \<^verbatim>\<open>BaseException\<close> only; every other
  exception above is an \<^verbatim>\<open>Exception\<close>, so \<^verbatim>\<open>except Exception\<close> catches it. A constructor
  stands for the class with its subclasses (\<open>TimeoutException\<close> and \<open>ConnectError\<close> are
  those of httpx); \<open>OtherException\<close> is any further subclass of \<^verbatim>\<open>Exception\<close>, by name.
\<close>

fun is_Exception :: "exn \<Rightarrow> bool" where
  "is_Exception CancelledError = False"
| "is_Exception _ = True"

definition ord :: "char \<Rightarrow> nat" where
  "ord c = of_char c"

definition ascii_lowercase :: string where
  "ascii_lowercase = ''abcdefghijklmnopqrstuvwxyz''"

definition ascii_uppercase :: string where
  "ascii_uppercase = ''ABCDEFGHIJKLMNOPQRSTUVWXYZ''"

definition digits :: string where
  "digits = ''0123456789''"

text \<open>
  \<^verbatim>\<open>str.lower\<close> on the code points below 256: the ASCII capitals, and the latin-1
  capitals U+00C0 to U+00DE without the multiplication sign U+00D7, have a lower-case
  letter 32 places further; every other character is kept.
\<close>

definition latin1_uppercase :: string where
  "latin1_uppercase =
       [CHR 0xC0, CHR 0xC1, CHR 0xC2, CHR 0xC3, CHR 0xC4, CHR 0xC5, CHR 0xC6, CHR 0xC7,
        CHR 0xC8, CHR 0xC9, CHR 0xCA, CHR 0xCB, CHR 0xCC, CHR 0xCD, CHR 0xCE, CHR 0xCF,
        CHR 0xD0, CHR 0xD1, CHR 0xD2, CHR 0xD3, CHR 0xD4, CHR 0xD5, CHR 0xD6, CHR 0xD8,
        CHR 0xD9, CHR 0xDA, CHR 0xDB, CHR 0xDC, CHR 0xDD, CHR 0xDE]"

definition latin1_lowercase :: string where
  "latin1_lowercase =
       [CHR 0xE0, CHR 0xE1, CHR 0xE2, CHR 0xE3, CHR 0xE4, CHR 0xE5, CHR 0xE6, CHR 0xE7,
        CHR 0xE8, CHR 0xE9, CHR 0xEA, CHR 0xEB, CHR 0xEC, CHR 0xED, CHR 0xEE, CHR 0xEF,
        CHR 0xF0, CHR 0xF1, CHR 0xF2, CHR 0xF3, CHR 0xF4, CHR 0xF5, CHR 0xF6, CHR 0xF8,
        CHR 0xF9, CHR 0xFA, CHR 0xFB, CHR 0xFC, CHR 0xFD, CHR 0xFE]"

definition lower_char :: "char \<Rightarrow> char" where
  "lower_char c =
     (case map_of (zip (ascii_uppercase @ latin1_uppercase) (ascii_lowercase @ latin1_lowercase)) c of
        None \<Rightarrow> c
      | Some l \<Rightarrow> l)"

definition lower :: "string \<Rightarrow> string" where
  "lower s = map lower_char s"

text \<open>\<^verbatim>\<open>s.split(c, 1)\<close> for a separator that occurs in \<open>s\<close>: the parts around its first occurrence.\<close>

definition split_first :: "char \<Rightarrow> string \<Rightarrow> string \<times> string" where
  "split_first c s = (takeWhile (\<lambda>x. x \<noteq> c) s, drop 1 (dropWhile (\<lambda>x. x \<noteq> c) s))"

text \<open>\<^verbatim>\<open>s.find(c)\<close>: the index of the first occurrence, \<^term>\<open>None\<close> for Python's -1.\<close>

definition find_char :: "char \<Rightarrow> string \<Rightarrow> nat option" where
  "find_char c s = (if c \<in> set s then Some (length (takeWhile (\<lambda>x. x \<noteq> c) s)) else None)"

section \<open>What the module imports from outside the source tree\<close>

text \<open>
  The constant \<^verbatim>\<open>AGENT_SERVER\<close> (sandbox_models) and the string rewrite
  \<^verbatim>\<open>replace_localhost_hostname_for_docker\<close> (docker_utils) belong to this repository, but
  their files are not among the sources; they are parameters of the model. So is the
  validity check of a bracketed host, which \<^verbatim>\<open>urllib.parse\<close> delegates to the
  \<^verbatim>\<open>ipaddress\<close> module (\<^term>\<open>True\<close> when \<^verbatim>\<open>_check_bracketed_host\<close> returns without raising).
\<close>

record externals =
  AGENT_SERVER :: string
  replace_localhost_hostname_for_docker :: "string \<Rightarrow> string"
  check_bracketed_host :: "string \<Rightarrow> bool"

record ExposedUrl =
  name :: string
  url :: string
  port :: nat

section \<open>urllib.parse\<close>

text \<open>
  \<^verbatim>\<open>urlparse\<close> as in CPython 3.12. It calls \<^verbatim>\<open>urlsplit\<close> and afterwards only separates the
  parameters from the path; scheme, netloc, query and fragment are those of \<^verbatim>\<open>urlsplit\<close>.
  The field \<open>path\<close> below is the path before that separation; the router never reads it.
  \<^verbatim>\<open>_checknetloc\<close> raises only when NFKC normalisation of the netloc produces one of
  \<^verbatim>\<open>/?#@:\<close>, which no code point below 256 does, so it is omitted.
\<close>

record ParseResult =
  scheme :: string
  netloc :: string
  path :: string
  query :: string
  fragment :: string

definition scheme_chars :: string where
  "scheme_chars = ascii_lowercase @ ascii_uppercase @ digits @ ''+-.''"

definition WHATWG_C0_CONTROL_OR_SPACE :: "char \<Rightarrow> bool" where
  "WHATWG_C0_CONTROL_OR_SPACE c = (ord c \<le> 32)"

definition UNSAFE_URL_BYTES_TO_REMOVE :: string where
  "UNSAFE_URL_BYTES_TO_REMOVE = [CHR 0x09, CHR 0x0D, CHR 0x0A]"

definition isalpha_ascii :: "char \<Rightarrow> bool" where
  "isalpha_ascii c = (c \<in> set (ascii_lowercase @ ascii_uppercase))"

text \<open>
  The scheme is split off when the text before the first colon is not empty, starts with
  an ASCII letter and consists of scheme characters; it is lower-cased.
\<close>

definition split_scheme :: "string \<Rightarrow> string \<times> string" where
  "split_scheme u =
     (case find_char CHR '':'' u of
        None \<Rightarrow> ([], u)
      | Some i \<Rightarrow>
          if 0 < i \<and> isalpha_ascii (hd u) \<and> list_all (\<lambda>c. c \<in> set scheme_chars) (take i u)
          then (lower (take i u), drop (Suc i) u)
          else ([], u))"

text \<open>\<^verbatim>\<open>_splitnetloc(url, 2)\<close>: the netloc ends at the earliest of \<^verbatim>\<open>/\<close>, \<^verbatim>\<open>?\<close> and \<^verbatim>\<open>#\<close>.\<close>

definition splitnetloc :: "string \<Rightarrow> string \<times> string" where
  "splitnetloc u =
     (let r = drop 2 u in
      (takeWhile (\<lambda>c. c \<notin> set ''/?#'') r, dropWhile (\<lambda>c. c \<notin> set ''/?#'') r))"

text \<open>
  The two bracket checks of \<^verbatim>\<open>urlsplit\<close>: an unmatched bracket is an invalid IPv6 URL, and
  the text between the first \<^verbatim>\<open>[\<close> and the next \<^verbatim>\<open>]\<close> must be a valid bracketed host.
\<close>

definition netloc_brackets_ok :: "externals \<Rightarrow> string \<Rightarrow> bool" where
  "netloc_brackets_ok E n =
     (if (CHR ''['' \<in> set n \<and> CHR '']'' \<notin> set n) \<or> (CHR '']'' \<in> set n \<and> CHR ''['' \<notin> set n)
      then False
      else if CHR ''['' \<in> set n \<and> CHR '']'' \<in> set n
      then check_bracketed_host E
             (takeWhile (\<lambda>c. c \<noteq> CHR '']'') (drop 1 (dropWhile (\<lambda>c. c \<noteq> CHR ''['') n)))
      else True)"

definition urlparse :: "externals \<Rightarrow> string \<Rightarrow> exn + ParseResult" where
  "urlparse E u0 =
     (let u1 = dropWhile WHATWG_C0_CONTROL_OR_SPACE u0;
          u2 = filter (\<lambda>c. c \<notin> set UNSAFE_URL_BYTES_TO_REMOVE) u1;
          (sch, u3) = split_scheme u2;
          (nl, u4) = (if take 2 u3 = ''//'' then splitnetloc u3 else ([], u3))
      in if take 2 u3 = ''//'' \<and> \<not> netloc_brackets_ok E nl then Inl ValueError
         else
           let (u5, frag) = (if CHR ''#'' \<in> set u4 then split_first CHR ''#'' u4 else (u4, []));
               (u6, qry) = (if CHR ''?'' \<in> set u5 then split_first CHR ''?'' u5 else (u5, []))
           in Inr \<lparr>scheme = sch, netloc = nl, path = u6, query = qry, fragment = frag\<rparr>)"

text \<open>
  \<^verbatim>\<open>urlencode\<close> of a dict of strings joins \<^verbatim>\<open>quote_plus(k) + '=' + quote_plus(v)\<close> with
  \<^verbatim>\<open>&\<close>. \<^verbatim>\<open>quote_plus\<close> encodes the string as UTF-8 and keeps the always-safe bytes, writes
  a space as \<^verbatim>\<open>+\<close> and any other byte as \<^verbatim>\<open>%XX\<close> in upper-case hexadecimal.
\<close>

text \<open>
  The UTF-8 bytes of a code point below 256, bit by bit (least significant bit first): one
  byte below 128, otherwise \<open>192 + c div 64\<close> and \<open>128 + c mod 64\<close>. Bytes are characters.
\<close>

fun utf8_char :: "char \<Rightarrow> string" where
  "utf8_char (Char b0 b1 b2 b3 b4 b5 b6 b7) =
     (if b7
      then [Char b6 True False False False False True True, Char b0 b1 b2 b3 b4 b5 False True]
      else [Char b0 b1 b2 b3 b4 b5 b6 False])"

definition utf8_encode :: "string \<Rightarrow> string" where
  "utf8_encode s = concat (map utf8_char s)"

definition ALWAYS_SAFE :: string where
  "ALWAYS_SAFE = ascii_uppercase @ ascii_lowercase @ digits @ ''_.-~''"

definition hex_upper :: "char \<Rightarrow> string" where
  "hex_upper b = [''0123456789ABCDEF'' ! (ord b div 16), ''0123456789ABCDEF'' ! (ord b mod 16)]"

definition quote_byte :: "char \<Rightarrow> string" where
  "quote_byte b =
     (if b \<in> set ALWAYS_SAFE then [b]
      else if b = CHR '' '' then ''+''
      else CHR ''%'' # hex_upper b)"

definition quote_plus :: "string \<Rightarrow> string" where
  "quote_plus s = concat (map quote_byte (utf8_encode s))"

fun join_amp :: "string list \<Rightarrow> string" where
  "join_amp [] = []"
| "join_amp [x] = x"
| "join_amp (x # y # ys) = x @ ''&'' @ join_amp (y # ys)"

definition urlencode :: "(string \<times> string) list \<Rightarrow> string" where
  "urlencode q = join_amp (map (\<lambda>(k, v). quote_plus k @ ''='' @ quote_plus v) q)"

text \<open>The value of a hexadecimal digit, in either case.\<close>

definition hex_digit_value :: "char \<Rightarrow> nat option" where
  "hex_digit_value c =
     (let n = ord c in
      if 48 \<le> n \<and> n \<le> 57 then Some (n - 48)
      else if 97 \<le> n \<and> n \<le> 102 then Some (n - 87)
      else if 65 \<le> n \<and> n \<le> 70 then Some (n - 55)
      else None)"

text \<open>
  Reading a query string back, as \<^verbatim>\<open>parse_qsl\<close> does with its default arguments, up to the
  bytes of each name and value: the pieces between \<^verbatim>\<open>&\<close> are split at their first \<^verbatim>\<open>=\<close>; an
  empty piece, a piece without \<^verbatim>\<open>=\<close> and a piece with an empty value are left out; in name
  and value \<^verbatim>\<open>+\<close> becomes a space and \<^verbatim>\<open>%XX\<close> the byte it denotes. (The last step of
  \<^verbatim>\<open>parse_qsl\<close>, decoding the bytes as UTF-8, is not modelled; the bytes are compared.)
\<close>

fun split_on :: "char \<Rightarrow> string \<Rightarrow> string list" where
  "split_on c [] = [[]]"
| "split_on c (x # xs) =
     (if x = c then [] # split_on c xs
      else (case split_on c xs of
              [] \<Rightarrow> [[x]]
            | piece # pieces \<Rightarrow> (x # piece) # pieces))"

fun unquote_bytes :: "string \<Rightarrow> string" where
  "unquote_bytes [] = []"
| "unquote_bytes [c] = [c]"
| "unquote_bytes [c, a] = [c, a]"
| "unquote_bytes (c # a # b # rest) =
     (if c = CHR ''%''
      then (case (hex_digit_value a, hex_digit_value b) of
              (Some x, Some y) \<Rightarrow> char_of (16 * x + y) # unquote_bytes rest
            | _ \<Rightarrow> c # unquote_bytes (a # b # rest))
      else c # unquote_bytes (a # b # rest))"

definition unquote_plus_to_bytes :: "string \<Rightarrow> string" where
  "unquote_plus_to_bytes s =
     unquote_bytes (utf8_encode (map (\<lambda>c. if c = CHR ''+'' then CHR '' '' else c) s))"

definition parse_qsl :: "string \<Rightarrow> (string \<times> string) list" where
  "parse_qsl qs =
     concat (map (\<lambda>name_value.
                    if name_value = [] \<or> CHR ''='' \<notin> set name_value then []
                    else let (n, v) = split_first CHR ''='' name_value
                         in if v = [] then []
                            else [(unquote_plus_to_bytes n, unquote_plus_to_bytes v)])
                 (split_on CHR ''&'' qs))"

text \<open>
  A text \<open>host:port\<close> as it stands between \<^verbatim>\<open>//\<close> and the end of a base URL: it contains none
  of \<^verbatim>\<open>/\<close>, \<^verbatim>\<open>?\<close>, \<^verbatim>\<open>#\<close>, no tab and no line break, and it passes the bracket checks of
  \<^verbatim>\<open>urlparse\<close> (it has no bracket, or a bracketed host that is valid).
\<close>

definition host_port :: "externals \<Rightarrow> string \<Rightarrow> bool" where
  "host_port E hp =
     (list_all (\<lambda>c. c \<notin> set ''/?#'' \<and> c \<notin> set UNSAFE_URL_BYTES_TO_REMOVE) hp
      \<and> netloc_brackets_ok E hp)"

section \<open>The address helpers of the router\<close>

fun get_agent_server_base_url :: "externals \<Rightarrow> ExposedUrl list \<Rightarrow> string option" where
  "get_agent_server_base_url E [] = None"
| "get_agent_server_base_url E (exposed_url # rest) =
     (if name exposed_url = AGENT_SERVER E
      then Some (replace_localhost_hostname_for_docker E (url exposed_url))
      else get_agent_server_base_url E rest)"

text \<open>
  \<^verbatim>\<open>_get_agent_server_ws_url\<close>. A \<^verbatim>\<open>ValueError\<close> of \<^verbatim>\<open>urlparse\<close> is not caught there and
  leaves the function. \<^verbatim>\<open>if session_api_key:\<close> is false for \<^verbatim>\<open>None\<close> and for the empty string.
\<close>

fun get_agent_server_ws_url ::
  "externals \<Rightarrow> ExposedUrl list \<Rightarrow> string \<Rightarrow> string option \<Rightarrow> exn + string option" where
  "get_agent_server_ws_url E [] conversation_id api_key = Inr None"
| "get_agent_server_ws_url E (exposed_url # rest) conversation_id api_key =
     (if name exposed_url = AGENT_SERVER E
      then
        (case urlparse E (replace_localhost_hostname_for_docker E (url exposed_url)) of
           Inl e \<Rightarrow> Inl e
         | Inr parsed \<Rightarrow>
             let ws_scheme = (if scheme parsed = ''https'' then ''wss'' else ''ws'');
                 ws_url = ws_scheme @ ''://'' @ netloc parsed @ ''/sockets/events/'' @ conversation_id
             in (case api_key of
                   None \<Rightarrow> Inr (Some ws_url)
                 | Some k \<Rightarrow>
                     if k \<noteq> []
                     then Inr (Some (ws_url @ ''?'' @ urlencode [(''session_api_key'', k)]))
                     else Inr (Some ws_url)))
      else get_agent_server_ws_url E rest conversation_id api_key)"

text \<open>
  An example environment: the proxy runs outside Docker, so the hostname rewrite leaves
  every URL as it is; the location name is the one of the specification's concrete case;
  no bracketed host is accepted.
\<close>

definition local_externals :: externals where
  "local_externals =
     \<lparr>AGENT_SERVER = ''agent_server'',
      replace_localhost_hostname_for_docker = (\<lambda>u. u),
      check_bracketed_host = (\<lambda>h. False)\<rparr>"

section \<open>uuid.UUID\<close>

text \<open>
  \<^verbatim>\<open>UUID(hex)\<close> on a \<^verbatim>\<open>str\<close> as in CPython 3.12: the texts \<^verbatim>\<open>urn:\<close> and \<^verbatim>\<open>uuid:\<close> are removed,
  braces are stripped at both ends, hyphens are removed, 32 characters must remain, and
  \<^verbatim>\<open>int(hex, 16)\<close> must accept them and give a value from 0 below \<open>2 ^ 128\<close>. Every failure
  is a \<^verbatim>\<open>ValueError\<close>. A UUID is its 128-bit integer (the attribute \<^verbatim>\<open>int\<close>).
\<close>

type_synonym uuid = int

text \<open>\<^verbatim>\<open>s.replace(old, '')\<close> for a non-empty \<open>old\<close>: occurrences are removed from left to right.\<close>

fun remove_all :: "string \<Rightarrow> string \<Rightarrow> string" where
  "remove_all old [] = []"
| "remove_all old (c # cs) =
     (if old \<noteq> [] \<and> take (length old) (c # cs) = old
      then remove_all old (drop (length old - 1) cs)
      else c # remove_all old cs)"

definition strip :: "(char \<Rightarrow> bool) \<Rightarrow> string \<Rightarrow> string" where
  "strip P s = rev (dropWhile P (rev (dropWhile P s)))"

text \<open>
  The white space that \<^verbatim>\<open>int\<close> strips from a \<^verbatim>\<open>str\<close>, among the code points below 256: the
  ASCII white space of C (tab to carriage return, and the space), and the two non-ASCII
  spaces U+0085 and U+00A0, which \<^verbatim>\<open>int\<close> first turns into spaces. The separators U+001C to
  U+001F are ASCII, stay as they are and are not stripped: \<^verbatim>\<open>int\<close> refuses them.
\<close>

definition isspace :: "char \<Rightarrow> bool" where
  "isspace c =
     (let n = ord c in (9 \<le> n \<and> n \<le> 13) \<or> n = 32 \<or> n = 133 \<or> n = 160)"

text \<open>
  The digits of \<^verbatim>\<open>int(s, 16)\<close>: hexadecimal digits with single underscores between them.
  \<open>prev\<close> tells whether the previous character was an underscore.
\<close>

fun hex_digits :: "int \<Rightarrow> bool \<Rightarrow> string \<Rightarrow> int option" where
  "hex_digits acc prev [] = (if prev then None else Some acc)"
| "hex_digits acc prev (c # cs) =
     (if c = CHR ''_'' then (if prev then None else hex_digits acc True cs)
      else (case hex_digit_value c of
              None \<Rightarrow> None
            | Some d \<Rightarrow> hex_digits (16 * acc + int d) False cs))"

definition int_16 :: "string \<Rightarrow> int option" where
  "int_16 s =
     (let s1 = strip isspace s;
          neg = (take 1 s1 = ''-'');
          s2 = (if take 1 s1 = ''-'' \<or> take 1 s1 = ''+'' then drop 1 s1 else s1);
          s3 = (if take 2 s2 = ''0x'' \<or> take 2 s2 = ''0X''
                then (if take 1 (drop 2 s2) = ''_'' then drop 3 s2 else drop 2 s2)
                else s2)
      in if s3 = [] \<or> take 1 s3 = ''_'' then None
         else (case hex_digits 0 False s3 of
                 None \<Rightarrow> None
               | Some n \<Rightarrow> Some (if neg then - n else n)))"

definition UUID :: "string \<Rightarrow> exn + uuid" where
  "UUID h0 =
     (let h1 = remove_all ''uuid:'' (remove_all ''urn:'' h0);
          h2 = remove_all ''-'' (strip (\<lambda>c. c \<in> set ''{}'') h1)
      in if length h2 \<noteq> 32 then Inl ValueError
         else (case int_16 h2 of
                 None \<Rightarrow> Inl ValueError
               | Some i \<Rightarrow> if 0 \<le> i \<and> i < 2 ^ 128 then Inr i else Inl ValueError))"

section \<open>The collaborators and what the router does to them\<close>

record AppConversationInfo =
  sandbox_id :: string

record SandboxInfo =
  exposed_urls :: "ExposedUrl list option"
  session_api_key :: "string option"

text \<open>
  \<^verbatim>\<open>AppConversationInfoService.get_app_conversation_info\<close> and \<^verbatim>\<open>SandboxService.get_sandbox\<close>:
  a snapshot of what each lookup answers.
\<close>

type_synonym AppConversationInfoService = "uuid \<Rightarrow> AppConversationInfo option"

type_synonym SandboxService = "string \<Rightarrow> SandboxInfo option"

datatype message = Text string | Bytes string

datatype pump = ClientToServer | ServerToClient

record Response =
  content :: string
  status_code :: nat
  headers :: "(string \<times> string) list"

text \<open>The arguments of \<^verbatim>\<open>httpx_client.request\<close>.\<close>

record OutboundRequest =
  out_method :: string
  out_url :: string
  out_headers :: "(string \<times> string) list"
  out_content :: "string option"
  out_timeout :: nat

text \<open>
  Every call the router makes on a collaborator or a connection is recorded, in program
  order, as an event.
\<close>

datatype event =
    GetAppConversationInfo uuid
  | GetSandbox string
  | WsClose nat
  | WsAccept
  | Connect string "(string \<times> string) list"
  | SendToServer string
  | SendTextToClient string
  | SendBytesToClient string
  | TaskCancel pump
  | TaskAwait pump
  | ServerClose
  | HttpxRequest OutboundRequest

definition WS_1008_POLICY_VIOLATION :: nat where
  "WS_1008_POLICY_VIOLATION = 1008"

definition WS_1011_INTERNAL_ERROR :: nat where
  "WS_1011_INTERNAL_ERROR = 1011"

definition WS_1013_TRY_AGAIN_LATER :: nat where
  "WS_1013_TRY_AGAIN_LATER = 1013"

section \<open>The streaming relay\<close>

text \<open>
  The inbound connection, as its peer and the ASGI server determine it: what each
  iteration of the client-to-server loop meets (\<open>Inr data\<close>: \<^verbatim>\<open>receive_text\<close> gave \<open>data\<close> and
  it was sent on; \<open>Inl e\<close>: \<^verbatim>\<open>receive_text\<close> or the send raised \<open>e\<close>), up to the moment
  \<^verbatim>\<open>asyncio.wait\<close> returns, and what \<^verbatim>\<open>close\<close> raises, if anything.
\<close>

record WebSocket =
  client_in :: "(exn + string) list"
  close_raises :: "exn option"

text \<open>
  What the iteration over the backend connection meets: a message, an exception, or the
  end of the iteration (the backend closed the connection normally).
\<close>

datatype server_step = Message message | Raises exn | Exhausted

text \<open>
  \<^verbatim>\<open>websockets.connect(ws_url, additional_headers=headers, ...)\<close>: entering the context
  raises, or gives a connection with its incoming steps.
\<close>

type_synonym websockets_connect = "string \<Rightarrow> (string \<times> string) list \<Rightarrow> exn + server_step list"

text \<open>
  A pump task is observed when \<^verbatim>\<open>asyncio.wait\<close> returns: it has returned, it has raised,
  or it is suspended in its loop, having met all the steps listed for it.
\<close>

datatype task = Returned | Raised exn | Suspended

fun proxy_client_to_server :: "(exn + string) list \<Rightarrow> event list \<times> task" where
  "proxy_client_to_server [] = ([], Suspended)"
| "proxy_client_to_server (Inr data # rest) =
     (let (evs, t) = proxy_client_to_server rest in (SendToServer data # evs, t))"
| "proxy_client_to_server (Inl e # rest) =
     ([], if e = WebSocketDisconnect then Returned
          else if is_Exception e then Returned
          else Raised e)"

fun proxy_server_to_client :: "server_step list \<Rightarrow> event list \<times> task" where
  "proxy_server_to_client [] = ([], Suspended)"
| "proxy_server_to_client (Message (Bytes b) # rest) =
     (let (evs, t) = proxy_server_to_client rest in (SendBytesToClient b # evs, t))"
| "proxy_server_to_client (Message (Text x) # rest) =
     (let (evs, t) = proxy_server_to_client rest in (SendTextToClient x # evs, t))"
| "proxy_server_to_client (Exhausted # rest) = ([], Returned)"
| "proxy_server_to_client (Raises e # rest) =
     ([], if e = ConnectionClosed \<or> e = ConnectionClosedError then Returned
          else if is_Exception e then Returned
          else Raised e)"

text \<open>
  \<^verbatim>\<open>task.cancel()\<close> throws \<^verbatim>\<open>CancelledError\<close> into the suspended pump at its await; the
  pump's handlers decide what the task then does, and \<^verbatim>\<open>await task\<close> raises what the task raised.
\<close>

fun cancelled :: "pump \<Rightarrow> task" where
  "cancelled ClientToServer = snd (proxy_client_to_server [Inl CancelledError])"
| "cancelled ServerToClient = snd (proxy_server_to_client [Raises CancelledError])"

text \<open>
  The loop over \<^verbatim>\<open>pending\<close>: cancel the task, await it, pass over \<^verbatim>\<open>CancelledError\<close>. Any
  other exception of the awaited task leaves the loop.
\<close>

fun cancel_pending :: "pump list \<Rightarrow> event list \<times> exn option" where
  "cancel_pending [] = ([], None)"
| "cancel_pending (t # ts) =
     (case cancelled t of
        Raised e \<Rightarrow>
          if e = CancelledError
          then (let (evs, r) = cancel_pending ts in (TaskCancel t # TaskAwait t # evs, r))
          else ([TaskCancel t, TaskAwait t], Some e)
      | _ \<Rightarrow> (let (evs, r) = cancel_pending ts in (TaskCancel t # TaskAwait t # evs, r)))"

text \<open>
  How a call of the relay ends: it returned, an exception left it, or it is still relaying
  (both pumps suspended, \<^verbatim>\<open>asyncio.wait\<close> has not returned).
\<close>

datatype outcome = Closed | Propagated exn | Relaying

definition ws_close :: "WebSocket \<Rightarrow> nat \<Rightarrow> event list \<times> outcome" where
  "ws_close websocket code =
     ([WsClose code], case close_raises websocket of None \<Rightarrow> Closed | Some e \<Rightarrow> Propagated e)"

text \<open>\<^verbatim>\<open>_connect_to_agent_server\<close>: the credential travels as a header too.\<close>

definition connect_to_agent_server ::
  "websockets_connect \<Rightarrow> string \<Rightarrow> string option \<Rightarrow> event list \<times> (exn + server_step list)" where
  "connect_to_agent_server connect ws_url api_key =
     (let hdrs = (case api_key of
                    None \<Rightarrow> []
                  | Some k \<Rightarrow> if k \<noteq> [] then [(''X-Session-API-Key'', k)] else [])
      in ([Connect ws_url hdrs], connect ws_url hdrs))"

text \<open>
  The body of the \<^verbatim>\<open>try\<close> statement of \<^verbatim>\<open>_websocket_proxy_impl\<close>: connect, start both pumps,
  wait for the first to complete, cancel what is pending, leave the connection context
  (which closes the backend connection, also when an exception passes through). The
  results of the tasks in \<^verbatim>\<open>done\<close> are never read. The events of the two pumps are listed
  one pump after the other; their interleaving is not modelled.
\<close>

definition relay_body ::
  "websockets_connect \<Rightarrow> WebSocket \<Rightarrow> string \<Rightarrow> string option \<Rightarrow> event list \<times> task" where
  "relay_body connect websocket ws_url api_key =
     (let (ev0, conn) = connect_to_agent_server connect ws_url api_key
      in case conn of
           Inl e \<Rightarrow> (ev0, Raised e)
         | Inr server_in \<Rightarrow>
             let (ev1, client_to_server) = proxy_client_to_server (client_in websocket);
                 (ev2, server_to_client) = proxy_server_to_client server_in
             in if client_to_server = Suspended \<and> server_to_client = Suspended
                then (ev0 @ ev1 @ ev2, Suspended)
                else
                  let pending = (if client_to_server = Suspended then [ClientToServer] else [])
                              @ (if server_to_client = Suspended then [ServerToClient] else []);
                      (ev3, r) = cancel_pending pending
                  in (ev0 @ ev1 @ ev2 @ ev3 @ [ServerClose],
                      case r of None \<Rightarrow> Returned | Some e \<Rightarrow> Raised e))"

text \<open>
  The handlers of that \<^verbatim>\<open>try\<close> statement. The close in the second handler is itself
  guarded by \<^verbatim>\<open>except Exception: pass\<close>; the close in the first is not.
\<close>

definition relay ::
  "websockets_connect \<Rightarrow> WebSocket \<Rightarrow> string \<Rightarrow> string option \<Rightarrow> event list \<times> outcome" where
  "relay connect websocket ws_url api_key =
     (let (evs, t) = relay_body connect websocket ws_url api_key
      in case t of
           Returned \<Rightarrow> (evs, Closed)
         | Suspended \<Rightarrow> (evs, Relaying)
         | Raised e \<Rightarrow>
             if e = ConnectionRefusedError
             then (let (evc, r) = ws_close websocket WS_1013_TRY_AGAIN_LATER in (evs @ evc, r))
             else if is_Exception e
             then (let (evc, r) = ws_close websocket WS_1011_INTERNAL_ERROR
                   in (evs @ evc,
                       case r of Propagated e' \<Rightarrow> if is_Exception e' then Closed else r | _ \<Rightarrow> r))
             else (evs, Propagated e))"

text \<open>
  \<^verbatim>\<open>_websocket_proxy_impl\<close>. \<^verbatim>\<open>not sandbox.exposed_urls\<close> holds for \<^verbatim>\<open>None\<close> and for the empty
  list; \<^verbatim>\<open>not ws_url\<close> holds for \<^verbatim>\<open>None\<close> and for the empty string. A \<^verbatim>\<open>ValueError\<close> raised
  while the streaming URL is built is outside every \<^verbatim>\<open>try\<close> and leaves the function.
\<close>

definition websocket_proxy_impl ::
  "externals \<Rightarrow> websockets_connect \<Rightarrow> WebSocket \<Rightarrow> string
     \<Rightarrow> AppConversationInfoService \<Rightarrow> SandboxService \<Rightarrow> event list \<times> outcome" where
  "websocket_proxy_impl E connect websocket conversation_id
       app_conversation_info_service sandbox_service =
     (case UUID conversation_id of
        Inl e \<Rightarrow>
          if e = ValueError then ws_close websocket WS_1008_POLICY_VIOLATION
          else ([], Propagated e)
      | Inr conversation_uuid \<Rightarrow>
          (case app_conversation_info_service conversation_uuid of
             None \<Rightarrow>
               (let (evc, r) = ws_close websocket WS_1008_POLICY_VIOLATION
                in (GetAppConversationInfo conversation_uuid # evc, r))
           | Some app_conversation_info \<Rightarrow>
               let lookups = [GetAppConversationInfo conversation_uuid,
                              GetSandbox (sandbox_id app_conversation_info)];
                   unavailable = (let (evc, r) = ws_close websocket WS_1013_TRY_AGAIN_LATER
                                  in (lookups @ evc, r))
               in (case sandbox_service (sandbox_id app_conversation_info) of
                     None \<Rightarrow> unavailable
                   | Some sandbox \<Rightarrow>
                       (case exposed_urls sandbox of
                          None \<Rightarrow> unavailable
                        | Some urls \<Rightarrow>
                            if urls = [] then unavailable
                            else
                              (case get_agent_server_ws_url E urls conversation_id
                                      (session_api_key sandbox) of
                                 Inl e \<Rightarrow> (lookups, Propagated e)
                               | Inr ws \<Rightarrow>
                                   if ws = None \<or> ws = Some []
                                   then (let (evc, r) = ws_close websocket WS_1011_INTERNAL_ERROR
                                         in (lookups @ evc, r))
                                   else
                                     (let (evr, r) = relay connect websocket (the ws)
                                                       (session_api_key sandbox)
                                      in (lookups @ WsAccept # evr, r)))))))"

text \<open>
  The two streaming endpoints. The services that \<^verbatim>\<open>_get_services_for_websocket\<close> yields
  are arguments.
\<close>

definition websocket_proxy ::
  "externals \<Rightarrow> websockets_connect \<Rightarrow> WebSocket \<Rightarrow> string
     \<Rightarrow> AppConversationInfoService \<Rightarrow> SandboxService \<Rightarrow> event list \<times> outcome" where
  "websocket_proxy E connect websocket conversation_id info_svc sandbox_svc =
     websocket_proxy_impl E connect websocket conversation_id info_svc sandbox_svc"

definition websocket_proxy_via_runtime ::
  "externals \<Rightarrow> websockets_connect \<Rightarrow> WebSocket \<Rightarrow> string \<Rightarrow> string
     \<Rightarrow> AppConversationInfoService \<Rightarrow> SandboxService \<Rightarrow> event list \<times> outcome" where
  "websocket_proxy_via_runtime E connect websocket runtime_conversation_id conversation_id
       info_svc sandbox_svc =
     (if runtime_conversation_id \<noteq> conversation_id
      then ws_close websocket WS_1008_POLICY_VIOLATION
      else websocket_proxy_impl E connect websocket conversation_id info_svc sandbox_svc)"

section \<open>The request forwarder\<close>

definition HOP_BY_HOP_HEADERS :: "string set" where
  "HOP_BY_HOP_HEADERS =
     {''connection'', ''keep-alive'', ''proxy-authenticate'', ''proxy-authorization'',
      ''te'', ''trailers'', ''transfer-encoding'', ''upgrade'', ''host''}"

text \<open>
  \<^verbatim>\<open>_get_sandbox_for_conversation\<close>, with the lookups it made. The second component of the
  source's pair is the sandbox's \<open>session_api_key\<close> and is read from the sandbox here.
\<close>

definition get_sandbox_for_conversation ::
  "string \<Rightarrow> AppConversationInfoService \<Rightarrow> SandboxService
     \<Rightarrow> event list \<times> (exn + SandboxInfo option)" where
  "get_sandbox_for_conversation conversation_id app_conversation_info_service sandbox_service =
     (case UUID conversation_id of
        Inl e \<Rightarrow> if e = ValueError then ([], Inr None) else ([], Inl e)
      | Inr conversation_uuid \<Rightarrow>
          (case app_conversation_info_service conversation_uuid of
             None \<Rightarrow> ([GetAppConversationInfo conversation_uuid], Inr None)
           | Some app_conversation_info \<Rightarrow>
               ([GetAppConversationInfo conversation_uuid,
                 GetSandbox (sandbox_id app_conversation_info)],
                case sandbox_service (sandbox_id app_conversation_info) of
                  None \<Rightarrow> Inr None
                | Some sandbox \<Rightarrow>
                    (case exposed_urls sandbox of
                       None \<Rightarrow> Inr None
                     | Some urls \<Rightarrow> if urls = [] then Inr None else Inr (Some sandbox)))))"

text \<open>
  The incoming request: method, \<^verbatim>\<open>request.url.query\<close>, the header items in order, and
  what \<^verbatim>\<open>await request.body()\<close> gives or raises.
\<close>

record Request =
  req_method :: string
  req_query :: string
  req_headers :: "(string \<times> string) list"
  req_body :: "exn + string"

type_synonym AsyncClient = "OutboundRequest \<Rightarrow> exn + Response"

text \<open>
  The two header loops: a dict is filled in the order of the items; a name that comes
  again replaces the value at its place. Such a dict is an association list under
  \<^const>\<open>AList.update\<close>.
\<close>

fun copy_headers :: "(string \<times> string) list \<Rightarrow> (string \<times> string) list \<Rightarrow> (string \<times> string) list" where
  "copy_headers [] d = d"
| "copy_headers ((n, v) # items) d =
     copy_headers items (if lower n \<notin> HOP_BY_HOP_HEADERS then AList.update n v d else d)"

definition rstrip_slash :: "string \<Rightarrow> string" where
  "rstrip_slash s = rev (dropWhile (\<lambda>c. c = CHR ''/'') (rev s))"

text \<open>
  The \<^verbatim>\<open>try\<close> statement of \<^verbatim>\<open>http_proxy\<close>: its body, then its handlers. The response is
  built from the keyword arguments the source passes to \<^verbatim>\<open>Response\<close>.
\<close>

definition forward ::
  "AsyncClient \<Rightarrow> Request \<Rightarrow> string \<Rightarrow> (string \<times> string) list
     \<Rightarrow> event list \<times> (exn + Response)" where
  "forward httpx_client request target_url forward_headers =
     (case req_body request of
        Inl e \<Rightarrow> ([], Inl e)
      | Inr body \<Rightarrow>
          let rq = \<lparr>out_method = req_method request, out_url = target_url,
                    out_headers = forward_headers,
                    out_content = (if body \<noteq> [] then Some body else None),
                    out_timeout = 60\<rparr>
          in ([HttpxRequest rq],
              case httpx_client rq of
                Inl e \<Rightarrow> Inl e
              | Inr response \<Rightarrow>
                  Inr \<lparr>content = content response, status_code = status_code response,
                       headers = copy_headers (headers response) []\<rparr>))"

definition http_proxy ::
  "externals \<Rightarrow> Request \<Rightarrow> string \<Rightarrow> string \<Rightarrow> AppConversationInfoService \<Rightarrow> SandboxService
     \<Rightarrow> AsyncClient \<Rightarrow> event list \<times> (exn + Response)" where
  "http_proxy E request conversation_id path_arg app_conversation_info_service sandbox_service
       httpx_client =
     (let (ev0, looked) = get_sandbox_for_conversation conversation_id
                            app_conversation_info_service sandbox_service
      in case looked of
           Inl e \<Rightarrow> (ev0, Inl e)
         | Inr None \<Rightarrow>
             (ev0, Inr \<lparr>content = ''Conversation not found or sandbox not running'',
                       status_code = 404, headers = []\<rparr>)
         | Inr (Some sandbox) \<Rightarrow>
             (case get_agent_server_base_url E (the (exposed_urls sandbox)) of
                None \<Rightarrow>
                  (ev0, Inr \<lparr>content = ''Agent server not available'',
                            status_code = 503, headers = []\<rparr>)
              | Some base_url \<Rightarrow>
                  if base_url = []
                  then (ev0, Inr \<lparr>content = ''Agent server not available'',
                                 status_code = 503, headers = []\<rparr>)
                  else
                    let target_url = rstrip_slash base_url @ ''/'' @ path_arg
                                     @ (if req_query request \<noteq> [] then ''?'' @ req_query request
                                        else []);
                        copied = copy_headers (req_headers request) [];
                        forward_headers =
                          (case session_api_key sandbox of
                             None \<Rightarrow> copied
                           | Some k \<Rightarrow>
                               if k \<noteq> [] then AList.update ''X-Session-API-Key'' k copied
                               else copied);
                        (ev1, r) = forward httpx_client request target_url forward_headers
                    in (ev0 @ ev1,
                        case r of
                          Inr response \<Rightarrow> Inr response
                        | Inl e \<Rightarrow>
                            if e = TimeoutException
                            then Inr \<lparr>content = ''Gateway timeout'', status_code = 504,
                                     headers = []\<rparr>
                            else if e = ConnectError
                            then Inr \<lparr>content = ''Agent server unavailable'', status_code = 503,
                                     headers = []\<rparr>
                            else if is_Exception e
                            then Inr \<lparr>content = ''Internal proxy error'', status_code = 500,
                                     headers = []\<rparr>
                            else Inl e)))"

section \<open>Example inputs\<close>

text \<open>
  A conversation id in the form of \<^verbatim>\<open>uuid4().hex\<close>, collaborators that answer as the mocks
  of the unit tests do, a client that sends one message and disconnects, a backend that has
  sent one event, and a forwarded request with two hop-by-hop headers.
\<close>

definition example_conversation_id :: string where
  "example_conversation_id = ''0123456789abcdef0123456789abcdef''"

definition example_info_service :: AppConversationInfoService where
  "example_info_service = (\<lambda>u. Some \<lparr>sandbox_id = ''sandbox-123''\<rparr>)"

definition no_sandbox_service :: SandboxService where
  "no_sandbox_service = (\<lambda>s. None)"

definition vscode_sandbox_service :: SandboxService where
  "vscode_sandbox_service =
     (\<lambda>s. Some \<lparr>exposed_urls =
                   Some [\<lparr>name = ''VSCODE'', url = ''http://localhost:8080'', port = 8080\<rparr>],
                 session_api_key = None\<rparr>)"

definition vscode_location :: ExposedUrl where
  "vscode_location = \<lparr>name = ''VSCODE'', url = ''http://localhost:8080'', port = 8080\<rparr>"

definition agent_location :: ExposedUrl where
  "agent_location = \<lparr>name = ''agent_server'', url = ''http://localhost:33545'', port = 33545\<rparr>"

definition secure_agent_location :: ExposedUrl where
  "secure_agent_location =
     \<lparr>name = ''agent_server'', url = ''https://localhost:33545'', port = 33545\<rparr>"

definition ftp_agent_location :: ExposedUrl where
  "ftp_agent_location = \<lparr>name = ''agent_server'', url = ''ftp://host:21'', port = 21\<rparr>"

definition unmatched_bracket_location :: ExposedUrl where
  "unmatched_bracket_location = \<lparr>name = ''agent_server'', url = ''ftp://[::1'', port = 21\<rparr>"

definition example_locations :: "ExposedUrl list" where
  "example_locations = [agent_location]"

definition example_sandbox :: SandboxInfo where
  "example_sandbox =
     \<lparr>exposed_urls = Some example_locations, session_api_key = Some ''test-api-key''\<rparr>"

definition example_ws_url :: string where
  "example_ws_url =
     ''ws://localhost:33545/sockets/events/0123456789abcdef0123456789abcdef?session_api_key=test-api-key''"

definition agent_sandbox_service :: SandboxService where
  "agent_sandbox_service = (\<lambda>s. Some example_sandbox)"

definition example_websocket :: WebSocket where
  "example_websocket = \<lparr>client_in = [Inr ''ping'', Inl WebSocketDisconnect], close_raises = None\<rparr>"

definition example_connect :: websockets_connect where
  "example_connect = (\<lambda>u h. Inr [Message (Text ''event'')])"

definition example_request :: Request where
  "example_request =
     \<lparr>req_method = ''GET'', req_query = ''a=1'',
      req_headers = [(''Host'', ''openhands.example.com''), (''accept'', ''*/*''),
                     (''TE'', ''trailers'')],
      req_body = Inr []\<rparr>"

definition failing_client :: "exn \<Rightarrow> AsyncClient" where
  "failing_client e = (\<lambda>rq. Inl e)"

definition example_client :: AsyncClient where
  "example_client =
     (\<lambda>rq. Inr \<lparr>content = ''{}'', status_code = 200,
               headers = [(''Connection'', ''close''), (''content-type'', ''application/json'')]\<rparr>)"

definition example_outbound :: OutboundRequest where
  "example_outbound =
     \<lparr>out_method = ''GET'', out_url = ''http://localhost:33545/api/vscode/url?a=1'',
      out_headers = [(''accept'', ''*/*''), (''X-Session-API-Key'', ''test-api-key'')],
      out_content = None, out_timeout = 60\<rparr>"

section \<open>Facts about the helpers\<close>

lemmas uuid_defs = UUID_def int_16_def strip_def isspace_def hex_digit_value_def ord_def

lemmas lower_defs = lower_def lower_char_def ascii_uppercase_def ascii_lowercase_def
  latin1_uppercase_def latin1_lowercase_def

lemmas quote_defs = urlencode_def quote_plus_def utf8_encode_def quote_byte_def hex_upper_def
  ALWAYS_SAFE_def ascii_uppercase_def ascii_lowercase_def digits_def ord_def

lemmas url_defs = urlparse_def split_scheme_def find_char_def splitnetloc_def
  netloc_brackets_ok_def split_first_def WHATWG_C0_CONTROL_OR_SPACE_def
  UNSAFE_URL_BYTES_TO_REMOVE_def isalpha_ascii_def scheme_chars_def digits_def lower_defs ord_def

lemma example_uuid: "UUID example_conversation_id = Inr 1512366075204170929049582354406559215"
  by (simp add: example_conversation_id_def uuid_defs)

lemma invalid_uuid: "UUID ''invalid-uuid'' = Inl ValueError"
  by (simp add: uuid_defs)

lemma UUID_raises_ValueError: "UUID h = Inl e \<Longrightarrow> e = ValueError"
  by (auto simp: UUID_def Let_def split: if_splits option.splits)

lemma ws_url_no_agent_server:
  "\<forall>x\<in>set us. name x \<noteq> AGENT_SERVER E \<Longrightarrow> get_agent_server_ws_url E us cid k = Inr None"
  by (induction us) auto

lemma ws_url_not_empty:
  "get_agent_server_ws_url E us cid k = Inr (Some w) \<Longrightarrow> w \<noteq> []"
  by (induction us) (auto simp: Let_def split: if_splits sum.splits option.splits)

lemma ws_close_events: "fst (ws_close ws code) = [WsClose code]"
  by (simp add: ws_close_def)

lemma example_sandbox_fields:
  "exposed_urls example_sandbox = Some example_locations"
  "session_api_key example_sandbox = Some ''test-api-key''"
  "example_locations \<noteq> []"
  by (simp_all add: example_sandbox_def example_locations_def)

lemma example_ws_url_built:
  "get_agent_server_ws_url local_externals example_locations example_conversation_id
     (Some ''test-api-key'') = Inr (Some example_ws_url)"
  by (simp add: local_externals_def example_conversation_id_def example_locations_def
      agent_location_def example_ws_url_def url_defs quote_defs)

lemma example_resolution:
  "get_sandbox_for_conversation example_conversation_id example_info_service agent_sandbox_service =
     ([GetAppConversationInfo 1512366075204170929049582354406559215, GetSandbox ''sandbox-123''],
      Inr (Some example_sandbox))"
  by (simp add: get_sandbox_for_conversation_def example_uuid example_info_service_def
      agent_sandbox_service_def example_sandbox_fields)

lemma example_base_url:
  "get_agent_server_base_url local_externals example_locations = Some ''http://localhost:33545''"
  by (simp add: example_locations_def agent_location_def local_externals_def)

lemma example_forward:
  "http_proxy local_externals example_request example_conversation_id ''api/vscode/url''
       example_info_service agent_sandbox_service example_client =
     ([GetAppConversationInfo 1512366075204170929049582354406559215, GetSandbox ''sandbox-123'',
       HttpxRequest example_outbound],
      Inr \<lparr>content = ''{}'', status_code = 200,
           headers = [(''content-type'', ''application/json'')]\<rparr>)"
  by (simp add: http_proxy_def example_resolution example_base_url example_sandbox_fields
      forward_def example_request_def example_client_def example_outbound_def
      rstrip_slash_def lower_defs HOP_BY_HOP_HEADERS_def)

lemma copy_headers_keys:
  "fst ` set (copy_headers items d) \<subseteq> fst ` set d \<union> {n \<in> fst ` set items. lower n \<notin> HOP_BY_HOP_HEADERS}"
proof (induction items arbitrary: d)
  case Nil
  show ?case by simp
next
  case (Cons a items)
  obtain n v where a: "a = (n, v)" by (cases a)
  show ?case
    using Cons.IH [of "if lower n \<notin> HOP_BY_HOP_HEADERS then AList.update n v d else d"]
    by (auto simp: a dom_update split: if_splits)
qed

lemma copy_headers_no_hop:
  assumes "(n, v) \<in> set (copy_headers items [])"
  shows "lower n \<notin> HOP_BY_HOP_HEADERS"
proof -
  have "n \<in> fst ` set (copy_headers items [])"
    using assms by (rule image_eqI [where x = "(n, v)", rotated]) simp
  then have "n \<in> {n \<in> fst ` set items. lower n \<notin> HOP_BY_HOP_HEADERS}"
    using copy_headers_keys [of items "[]"] by auto
  then show ?thesis by simp
qed

lemma credential_header_not_hop: "lower ''X-Session-API-Key'' \<notin> HOP_BY_HOP_HEADERS"
  by (simp add: lower_defs HOP_BY_HOP_HEADERS_def)

lemma update_credential_no_hop:
  assumes "(n, v) \<in> set (AList.update ''X-Session-API-Key'' k (copy_headers items []))"
  shows "lower n \<notin> HOP_BY_HOP_HEADERS"
proof -
  have "n \<in> fst ` set (AList.update ''X-Session-API-Key'' k (copy_headers items []))"
    using assms by (rule image_eqI [where x = "(n, v)", rotated]) simp
  then have "n = ''X-Session-API-Key'' \<or> n \<in> fst ` set (copy_headers items [])"
    by (simp add: dom_update)
  then show ?thesis
  proof
    assume "n = ''X-Session-API-Key''"
    then show ?thesis using credential_header_not_hop by simp
  next
    assume "n \<in> fst ` set (copy_headers items [])"
    then obtain v' where "(n, v') \<in> set (copy_headers items [])" by auto
    then show ?thesis by (rule copy_headers_no_hop)
  qed
qed

lemma forward_request_headers:
  "HttpxRequest orq \<in> set (fst (forward client request target hs)) \<Longrightarrow> out_headers orq = hs"
  by (cases "req_body request") (auto simp: forward_def Let_def)

lemma forward_response_headers:
  assumes "snd (forward client request target hs) = Inr r" and "(n, v) \<in> set (headers r)"
  shows "lower n \<notin> HOP_BY_HOP_HEADERS"
proof (cases "req_body request")
  case (Inl e)
  then show ?thesis using assms by (simp add: forward_def)
next
  case (Inr body)
  let ?rq = "\<lparr>out_method = req_method request, out_url = target,
                    out_headers = hs,
                    out_content = (if body \<noteq> [] then Some body else None),
                    out_timeout = 60\<rparr>"
  show ?thesis
  proof (cases "client ?rq")
    case (Inl e)
    then show ?thesis using assms Inr by (simp add: forward_def Let_def)
  next
    case resp: (Inr response)
    then have "headers r = copy_headers (headers response) []"
      using assms(1) Inr by (auto simp: forward_def Let_def)
    then show ?thesis using assms(2) copy_headers_no_hop by simp
  qed
qed

lemma lookup_events_no_request:
  "HttpxRequest orq \<notin> set (fst (get_sandbox_for_conversation cid info sb))"
  by (simp add: get_sandbox_for_conversation_def split: sum.splits option.splits)

text \<open>The shape of a forwarded call.\<close>

lemma http_proxy_resolved:
  assumes "get_sandbox_for_conversation cid info sb = (ev0, Inr (Some sandbox))"
    and "get_agent_server_base_url E (the (exposed_urls sandbox)) = Some base_url"
    and "base_url \<noteq> []"
  shows "\<exists>target hs.
           (\<forall>n v. (n, v) \<in> set hs \<longrightarrow> lower n \<notin> HOP_BY_HOP_HEADERS) \<and>
           http_proxy E request cid p info sb client =
             (ev0 @ fst (forward client request target hs),
              case snd (forward client request target hs) of
                Inr response \<Rightarrow> Inr response
              | Inl e \<Rightarrow>
                  if e = TimeoutException
                  then Inr \<lparr>content = ''Gateway timeout'', status_code = 504, headers = []\<rparr>
                  else if e = ConnectError
                  then Inr \<lparr>content = ''Agent server unavailable'', status_code = 503,
                           headers = []\<rparr>
                  else if is_Exception e
                  then Inr \<lparr>content = ''Internal proxy error'', status_code = 500,
                           headers = []\<rparr>
                  else Inl e)"
proof -
  let ?copied = "copy_headers (req_headers request) []"
  let ?hs = "case session_api_key sandbox of
               None \<Rightarrow> ?copied
             | Some k \<Rightarrow> if k \<noteq> [] then AList.update ''X-Session-API-Key'' k ?copied else ?copied"
  let ?target = "rstrip_slash base_url @ ''/'' @ p
                   @ (if req_query request \<noteq> [] then ''?'' @ req_query request else [])"
  have hs: "\<forall>n v. (n, v) \<in> set ?hs \<longrightarrow> lower n \<notin> HOP_BY_HOP_HEADERS"
    by (auto split: option.splits dest: copy_headers_no_hop update_credential_no_hop)
  have "http_proxy E request cid p info sb client =
             (ev0 @ fst (forward client request ?target ?hs),
              case snd (forward client request ?target ?hs) of
                Inr response \<Rightarrow> Inr response
              | Inl e \<Rightarrow>
                  if e = TimeoutException
                  then Inr \<lparr>content = ''Gateway timeout'', status_code = 504, headers = []\<rparr>
                  else if e = ConnectError
                  then Inr \<lparr>content = ''Agent server unavailable'', status_code = 503,
                           headers = []\<rparr>
                  else if is_Exception e
                  then Inr \<lparr>content = ''Internal proxy error'', status_code = 500,
                           headers = []\<rparr>
                  else Inl e)"
    using assms by (simp add: http_proxy_def Let_def split_beta)
  with hs show ?thesis by blast
qed

lemma http_proxy_unresolved:
  assumes "get_sandbox_for_conversation cid info sb = (ev0, looked)"
    and "\<not> (\<exists>sandbox base_url. looked = Inr (Some sandbox) \<and>
            get_agent_server_base_url E (the (exposed_urls sandbox)) = Some base_url \<and> base_url \<noteq> [])"
  shows "fst (http_proxy E request cid p info sb client) = ev0 \<and>
         (\<forall>r. snd (http_proxy E request cid p info sb client) = Inr r \<longrightarrow> headers r = [])"
  using assms
  by (auto simp: http_proxy_def split: sum.splits option.splits)

lemma client_disconnects:
  "proxy_client_to_server (map Inr msgs @ Inl WebSocketDisconnect # later) =
     (map SendToServer msgs, Returned)"
  by (induction msgs) simp_all

lemma server_still_sending:
  "snd (proxy_server_to_client (map Message ms)) = Suspended"
proof (induction ms)
  case Nil
  show ?case by simp
next
  case (Cons m ms)
  then show ?case by (cases m) (simp_all add: split_beta)
qed

lemma cancelled_server_pump: "cancelled ServerToClient = Raised CancelledError"
  by simp

lemma relay_client_disconnects:
  assumes "\<And>h. connect ws_url h = Inr (map Message ms)"
    and "client_in ws = map Inr msgs @ Inl WebSocketDisconnect # later"
  shows "\<exists>evs. relay connect ws ws_url key =
           (evs @ [TaskCancel ServerToClient, TaskAwait ServerToClient, ServerClose], Closed)"
proof -
  obtain ev0 where c: "connect_to_agent_server connect ws_url key = (ev0, Inr (map Message ms))"
    using assms(1) by (simp add: connect_to_agent_server_def Let_def)
  obtain ev2 where s: "proxy_server_to_client (map Message ms) = (ev2, Suspended)"
    using server_still_sending [of ms] by (cases "proxy_server_to_client (map Message ms)") simp
  have "relay connect ws ws_url key =
          ((ev0 @ map SendToServer msgs @ ev2)
             @ [TaskCancel ServerToClient, TaskAwait ServerToClient, ServerClose], Closed)"
    by (simp add: relay_def relay_body_def c s assms(2) client_disconnects)
  then show ?thesis by blast
qed

section \<open>Facts about the streaming URL\<close>

lemma ws_url_shape:
  assumes "\<forall>x\<in>set pre. name x \<noteq> AGENT_SERVER E" and "name e = AGENT_SERVER E"
    and "urlparse E (replace_localhost_hostname_for_docker E (url e)) = Inr parsed"
  shows "get_agent_server_ws_url E (pre @ e # post) cid key =
           Inr (Some ((if scheme parsed = ''https'' then ''wss'' else ''ws'') @ ''://''
                      @ netloc parsed @ ''/sockets/events/'' @ cid
                      @ (case key of
                           None \<Rightarrow> []
                         | Some k \<Rightarrow> if k \<noteq> [] then ''?'' @ urlencode [(''session_api_key'', k)]
                                     else [])))"
  using assms by (induction pre) (auto simp: Let_def split: option.splits)

lemma ws_url_parse_error:
  assumes "\<forall>x\<in>set pre. name x \<noteq> AGENT_SERVER E" and "name e = AGENT_SERVER E"
    and "urlparse E (replace_localhost_hostname_for_docker E (url e)) = Inl err"
  shows "get_agent_server_ws_url E (pre @ e # post) cid key = Inl err"
  using assms by (induction pre) auto

lemma takeWhile_stop: "\<forall>x\<in>set xs. P x \<Longrightarrow> \<not> P y \<Longrightarrow> takeWhile P (xs @ y # ys) = xs"
  by (induction xs) auto

lemma dropWhile_stop: "\<forall>x\<in>set xs. P x \<Longrightarrow> \<not> P y \<Longrightarrow> dropWhile P (xs @ y # ys) = y # ys"
  by (induction xs) auto

text \<open>\<^const>\<open>urlparse\<close>, stage by stage.\<close>

lemma urlparse_stages:
  assumes "dropWhile WHATWG_C0_CONTROL_OR_SPACE u0 = u1"
    and "filter (\<lambda>c. c \<notin> set UNSAFE_URL_BYTES_TO_REMOVE) u1 = u2"
    and "split_scheme u2 = (sch, u3)"
    and "take 2 u3 = ''//''" and "splitnetloc u3 = (nl, u4)" and "netloc_brackets_ok E nl"
    and "CHR ''#'' \<notin> set u4"
  shows "urlparse E u0 =
           (if CHR ''?'' \<in> set u4
            then Inr \<lparr>scheme = sch, netloc = nl, path = fst (split_first CHR ''?'' u4),
                      query = snd (split_first CHR ''?'' u4), fragment = []\<rparr>
            else Inr \<lparr>scheme = sch, netloc = nl, path = u4, query = [], fragment = []\<rparr>)"
  using assms by (simp add: urlparse_def split_beta)

lemma split_scheme_prefix:
  assumes "sch \<noteq> []" and "isalpha_ascii (hd sch)"
    and "list_all (\<lambda>c. c \<in> set scheme_chars) sch"
  shows "split_scheme (sch @ CHR '':'' # rest) = (lower sch, rest)"
proof -
  have nc: "\<forall>x\<in>set sch. x \<noteq> CHR '':''"
  proof
    fix x assume "x \<in> set sch"
    then have "x \<in> set scheme_chars" using assms(3) by (simp add: list_all_iff)
    moreover have "CHR '':'' \<notin> set scheme_chars"
      by (simp add: scheme_chars_def ascii_lowercase_def ascii_uppercase_def digits_def)
    ultimately show "x \<noteq> CHR '':''" by blast
  qed
  have t: "takeWhile (\<lambda>x. x \<noteq> CHR '':'') (sch @ CHR '':'' # rest) = sch"
    by (rule takeWhile_stop [OF nc]) simp
  have f: "find_char CHR '':'' (sch @ CHR '':'' # rest) = Some (length sch)"
    by (simp add: find_char_def t)
  have h: "hd (sch @ CHR '':'' # rest) = hd sch" using assms(1) by simp
  show ?thesis
    unfolding split_scheme_def f using assms by (simp add: h)
qed

lemma host_port_chars:
  assumes "host_port E hp"
  shows "\<forall>c\<in>set hp. c \<notin> set ''/?#''"
    and "\<forall>c\<in>set hp. c \<notin> set UNSAFE_URL_BYTES_TO_REMOVE"
    and "netloc_brackets_ok E hp"
  using assms by (simp_all add: host_port_def list_all_iff)

lemma splitnetloc_host_port:
  assumes "\<forall>c\<in>set hp. c \<notin> set ''/?#''" and "rest = [] \<or> hd rest \<in> set ''/?#''"
  shows "splitnetloc (''//'' @ hp @ rest) = (hp, rest)"
proof (cases rest)
  case Nil
  then show ?thesis using assms(1) by (simp add: splitnetloc_def)
next
  case (Cons y ys)
  then have y: "\<not> y \<notin> set ''/?#''" using assms(2) by simp
  have "takeWhile (\<lambda>c. c \<notin> set ''/?#'') (hp @ y # ys) = hp"
    by (rule takeWhile_stop [OF assms(1) y])
  moreover have "dropWhile (\<lambda>c. c \<notin> set ''/?#'') (hp @ y # ys) = y # ys"
    by (rule dropWhile_stop [OF assms(1) y])
  ultimately show ?thesis by (simp add: splitnetloc_def Cons)
qed

lemma known_schemes:
  assumes "sch \<in> {''http'', ''https'', ''ws'', ''wss''}"
  shows "sch \<noteq> []" "isalpha_ascii (hd sch)" "list_all (\<lambda>c. c \<in> set scheme_chars) sch"
    "lower sch = sch" "\<not> WHATWG_C0_CONTROL_OR_SPACE (hd sch)"
    "filter (\<lambda>c. c \<notin> set UNSAFE_URL_BYTES_TO_REMOVE) sch = sch"
proof -
  from assms have c: "sch = ''http'' \<or> sch = ''https'' \<or> sch = ''ws'' \<or> sch = ''wss''" by simp
  from c show "sch \<noteq> []" by auto
  from c show "isalpha_ascii (hd sch)"
    by (elim disjE) (simp_all add: isalpha_ascii_def ascii_lowercase_def)
  from c show "list_all (\<lambda>c. c \<in> set scheme_chars) sch"
    by (elim disjE) (simp_all add: scheme_chars_def ascii_lowercase_def)
  from c show "lower sch = sch"
    by (elim disjE) (simp_all add: lower_defs)
  from c show "\<not> WHATWG_C0_CONTROL_OR_SPACE (hd sch)"
    by (elim disjE) (simp_all add: WHATWG_C0_CONTROL_OR_SPACE_def ord_def)
  from c show "filter (\<lambda>c. c \<notin> set UNSAFE_URL_BYTES_TO_REMOVE) sch = sch"
    by (elim disjE) (simp_all add: UNSAFE_URL_BYTES_TO_REMOVE_def)
qed

text \<open>A URL \<open>scheme://host:port\<close> followed by a path and perhaps a query.\<close>

lemma urlparse_known_scheme:
  assumes "sch \<in> {''http'', ''https'', ''ws'', ''wss''}" and "host_port E hp"
    and "filter (\<lambda>c. c \<notin> set UNSAFE_URL_BYTES_TO_REMOVE) rest = rest'"
    and "rest' = [] \<or> hd rest' = CHR ''/''" and "CHR ''#'' \<notin> set rest'"
  shows "urlparse E (sch @ ''://'' @ hp @ rest) =
           (if CHR ''?'' \<in> set rest'
            then Inr \<lparr>scheme = sch, netloc = hp, path = fst (split_first CHR ''?'' rest'),
                      query = snd (split_first CHR ''?'' rest'), fragment = []\<rparr>
            else Inr \<lparr>scheme = sch, netloc = hp, path = rest', query = [], fragment = []\<rparr>)"
proof -
  note k = known_schemes [OF assms(1)]
  note h = host_port_chars [OF assms(2)]
  let ?u = "sch @ ''://'' @ hp @ rest"
  let ?u' = "sch @ ''://'' @ hp @ rest'"
  obtain c cs where sch: "sch = c # cs" using k(1) by (cases sch) auto
  have 1: "dropWhile WHATWG_C0_CONTROL_OR_SPACE ?u = ?u"
    using k(5) by (simp add: sch)
  have "filter (\<lambda>c. c \<notin> set UNSAFE_URL_BYTES_TO_REMOVE) hp = hp"
    using h(2) by (intro filter_True) blast
  moreover have "filter (\<lambda>c. c \<notin> set UNSAFE_URL_BYTES_TO_REMOVE) ''://'' = ''://''"
    by (simp add: UNSAFE_URL_BYTES_TO_REMOVE_def)
  ultimately have 2: "filter (\<lambda>c. c \<notin> set UNSAFE_URL_BYTES_TO_REMOVE) ?u = ?u'"
    using k(6) assms(3) by (simp only: filter_append)
  have 3: "split_scheme ?u' = (sch, ''//'' @ hp @ rest')"
    using split_scheme_prefix [OF k(1,2,3), of "''//'' @ hp @ rest'"] by (simp add: k(4))
  have 4: "take 2 (''//'' @ hp @ rest') = ''//''" by simp
  have 5: "splitnetloc (''//'' @ hp @ rest') = (hp, rest')"
    using assms(4) by (intro splitnetloc_host_port [OF h(1)]) auto
  show ?thesis
    by (rule urlparse_stages [OF 1 2 3 4 5 h(3) assms(5)])
qed

lemma urlparse_http:
  assumes "sch = ''http'' \<or> sch = ''https''" and "host_port E hp"
  shows "urlparse E (sch @ ''://'' @ hp) =
           Inr \<lparr>scheme = sch, netloc = hp, path = [], query = [], fragment = []\<rparr>"
  using urlparse_known_scheme [of sch E hp "[]" "[]"] assms by auto

lemma hex_table:
  assumes "d < 16"
  shows "hex_digit_value (''0123456789ABCDEF'' ! d) = Some d"
    and "''0123456789ABCDEF'' ! d \<in> set ''0123456789ABCDEF''"
proof -
  from assms have "d = 0 \<or> d = 1 \<or> d = 2 \<or> d = 3 \<or> d = 4 \<or> d = 5 \<or> d = 6 \<or> d = 7 \<or> d = 8
      \<or> d = 9 \<or> d = 10 \<or> d = 11 \<or> d = 12 \<or> d = 13 \<or> d = 14 \<or> d = 15"
    by arith
  then show "hex_digit_value (''0123456789ABCDEF'' ! d) = Some d"
    by (elim disjE) (simp_all add: hex_digit_value_def ord_def)
  from assms show "''0123456789ABCDEF'' ! d \<in> set ''0123456789ABCDEF''"
    by (intro nth_mem) simp
qed

lemma ord_nibbles: "ord b div 16 < 16" "ord b mod 16 < 16"
proof -
  have "ord b < 256" by (simp add: ord_def)
  then show "ord b div 16 < 16" by simp
  show "ord b mod 16 < 16" by simp
qed

lemma safe_char_props:
  assumes "c \<in> set ALWAYS_SAFE"
  shows "c \<noteq> CHR ''%'' \<and> c \<noteq> CHR ''+'' \<and> c \<noteq> CHR ''#'' \<and> c \<noteq> CHR ''&'' \<and> c \<noteq> CHR ''=''
    \<and> c \<noteq> CHR ''?'' \<and> c \<noteq> CHR 0x09 \<and> c \<noteq> CHR 0x0D \<and> c \<noteq> CHR 0x0A \<and> c \<noteq> CHR '' ''
    \<and> utf8_char c = [c]"
proof -
  have "list_all (\<lambda>c. c \<noteq> CHR ''%'' \<and> c \<noteq> CHR ''+'' \<and> c \<noteq> CHR ''#'' \<and> c \<noteq> CHR ''&'' \<and> c \<noteq> CHR ''=''
    \<and> c \<noteq> CHR ''?'' \<and> c \<noteq> CHR 0x09 \<and> c \<noteq> CHR 0x0D \<and> c \<noteq> CHR 0x0A \<and> c \<noteq> CHR '' ''
    \<and> utf8_char c = [c]) ALWAYS_SAFE"
    by (simp add: ALWAYS_SAFE_def ascii_uppercase_def ascii_lowercase_def digits_def)
  then show ?thesis using assms unfolding list_all_iff by blast
qed

lemma hex_in_safe:
  assumes "c \<in> set ''0123456789ABCDEF''"
  shows "c \<in> set ALWAYS_SAFE"
proof -
  have "list_all (\<lambda>c. c \<in> set ALWAYS_SAFE) ''0123456789ABCDEF''"
    by (simp add: ALWAYS_SAFE_def ascii_uppercase_def ascii_lowercase_def digits_def)
  then show ?thesis using assms unfolding list_all_iff by blast
qed

lemma hex_upper_chars: "c \<in> set (hex_upper b) \<Longrightarrow> c \<in> set ALWAYS_SAFE"
  using hex_table(2) [OF ord_nibbles(1), of b] hex_table(2) [OF ord_nibbles(2), of b] hex_in_safe
  unfolding hex_upper_def by (metis empty_iff empty_set set_ConsD)

lemma quote_byte_chars:
  assumes "c \<in> set (quote_byte b)"
  shows "c \<in> set ALWAYS_SAFE \<or> c = CHR ''%'' \<or> c = CHR ''+''"
proof (cases "b \<in> set ALWAYS_SAFE")
  case True
  then show ?thesis using assms by (simp add: quote_byte_def)
next
  case False
  show ?thesis
  proof (cases "b = CHR '' ''")
    case True
    then show ?thesis using assms False by (simp add: quote_byte_def)
  next
    case nsp: False
    then have "c = CHR ''%'' \<or> c \<in> set (hex_upper b)"
      using assms False by (simp add: quote_byte_def)
    then show ?thesis using hex_upper_chars by blast
  qed
qed

lemma quote_plus_chars:
  "c \<in> set (quote_plus s) \<Longrightarrow> c \<in> set ALWAYS_SAFE \<or> c = CHR ''%'' \<or> c = CHR ''+''"
  unfolding quote_plus_def using quote_byte_chars by auto

lemma unquote_plain:
  assumes "c \<noteq> CHR ''%''"
  shows "unquote_bytes (c # rest) = c # unquote_bytes rest"
proof (cases rest)
  case Nil
  then show ?thesis by simp
next
  case (Cons a r1)
  then show ?thesis using assms by (cases r1) simp_all
qed

lemma unquote_escape:
  "unquote_bytes (CHR ''%'' # hex_upper b @ rest) = b # unquote_bytes rest"
proof -
  have "char_of (16 * (ord b div 16) + ord b mod 16) = b"
    by (simp add: ord_def)
  then show ?thesis
    by (simp add: hex_upper_def hex_table(1) [OF ord_nibbles(1)] hex_table(1) [OF ord_nibbles(2)])
qed

lemma unquote_quote_byte:
  "unquote_bytes (map (\<lambda>c. if c = CHR ''+'' then CHR '' '' else c) (quote_byte b) @ rest) =
     b # unquote_bytes rest"
proof (cases "b \<in> set ALWAYS_SAFE")
  case True
  then show ?thesis using safe_char_props [OF True] by (simp add: quote_byte_def unquote_plain)
next
  case False
  show ?thesis
  proof (cases "b = CHR '' ''")
    case True
    then show ?thesis using False by (simp add: quote_byte_def unquote_plain)
  next
    case nsp: False
    have "map (\<lambda>c. if c = CHR ''+'' then CHR '' '' else c) (hex_upper b) = hex_upper b"
    proof (rule map_idI)
      fix c assume "c \<in> set (hex_upper b)"
      then have "c \<in> set ALWAYS_SAFE" by (rule hex_upper_chars)
      then show "(if c = CHR ''+'' then CHR '' '' else c) = c"
        using safe_char_props by simp
    qed
    then show ?thesis using False nsp by (simp add: quote_byte_def unquote_escape)
  qed
qed

lemma unquote_quote_bytes:
  "unquote_bytes (map (\<lambda>c. if c = CHR ''+'' then CHR '' '' else c) (concat (map quote_byte bs))) = bs"
proof (induction bs)
  case Nil
  show ?case by simp
next
  case (Cons b bs)
  then show ?case using unquote_quote_byte [of b] by simp
qed

lemma utf8_encode_ascii:
  assumes "\<forall>c\<in>set xs. utf8_char c = [c]"
  shows "utf8_encode xs = xs"
  using assms unfolding utf8_encode_def by (induction xs) simp_all

lemma unquote_plus_quote_plus: "unquote_plus_to_bytes (quote_plus s) = utf8_encode s"
proof -
  let ?f = "\<lambda>c. if c = CHR ''+'' then CHR '' '' else c"
  have "\<forall>c\<in>set (map ?f (quote_plus s)). utf8_char c = [c]"
  proof
    fix c assume "c \<in> set (map ?f (quote_plus s))"
    then obtain c' where c': "c' \<in> set (quote_plus s)" "c = ?f c'" by auto
    from quote_plus_chars [OF c'(1)] show "utf8_char c = [c]"
    proof (elim disjE)
      assume "c' \<in> set ALWAYS_SAFE"
      then show ?thesis using safe_char_props [of c'] c'(2) by simp
    next
      assume "c' = CHR ''%''"
      then show ?thesis using c'(2) by simp
    next
      assume "c' = CHR ''+''"
      then show ?thesis using c'(2) by simp
    qed
  qed
  then have "utf8_encode (map ?f (quote_plus s)) = map ?f (quote_plus s)"
    by (rule utf8_encode_ascii)
  then show ?thesis
    by (simp add: unquote_plus_to_bytes_def) (simp add: quote_plus_def unquote_quote_bytes)
qed

lemma split_on_absent: "c \<notin> set s \<Longrightarrow> split_on c s = [s]"
  by (induction s) auto

lemma utf8_char_not_empty: "utf8_char c \<noteq> []"
  by (cases c) simp

lemma quote_byte_not_empty: "quote_byte b \<noteq> []"
  by (simp add: quote_byte_def)

lemma quote_plus_not_empty: "k \<noteq> [] \<Longrightarrow> quote_plus k \<noteq> []"
proof (cases k)
  case Nil
  assume "k \<noteq> []" with Nil show ?thesis by simp
next
  case (Cons c cs)
  obtain b bs where "utf8_char c = b # bs" using utf8_char_not_empty [of c] by (cases "utf8_char c") auto
  then show ?thesis using Cons quote_byte_not_empty [of b]
    by (simp add: quote_plus_def utf8_encode_def)
qed

lemma quote_plus_no_delims:
  assumes "c \<in> set (quote_plus s)"
  shows "c \<noteq> CHR ''#'' \<and> c \<noteq> CHR ''&'' \<and> c \<noteq> CHR ''='' \<and> c \<noteq> CHR ''?''
       \<and> c \<noteq> CHR 0x09 \<and> c \<noteq> CHR 0x0D \<and> c \<noteq> CHR 0x0A"
  using quote_plus_chars [OF assms] safe_char_props [of c] by auto

lemma session_key_name: "unquote_plus_to_bytes ''session_api_key'' = ''session_api_key''"
  by (simp add: unquote_plus_to_bytes_def utf8_encode_def)

lemma parse_qsl_credential:
  assumes "k \<noteq> []"
  shows "parse_qsl (urlencode [(''session_api_key'', k)]) = [(''session_api_key'', utf8_encode k)]"
proof -
  have q: "quote_plus ''session_api_key'' = ''session_api_key''"
    by (simp add: quote_defs)
  have namp: "CHR ''&'' \<notin> set (quote_plus k)" and neq: "CHR ''='' \<notin> set (quote_plus k)"
    using quote_plus_no_delims [of _ k] by blast+
  have u: "urlencode [(''session_api_key'', k)] = ''session_api_key='' @ quote_plus k"
    by (simp add: urlencode_def q)
  have s: "split_on CHR ''&'' (''session_api_key='' @ quote_plus k) = [''session_api_key='' @ quote_plus k]"
    by (rule split_on_absent) (simp add: namp)
  show ?thesis
    unfolding u parse_qsl_def s
    by (simp add: split_first_def quote_plus_not_empty [OF assms] session_key_name
        unquote_plus_quote_plus)
qed

lemma split_scheme_chars: "split_scheme u = (sch, r) \<Longrightarrow> set r \<subseteq> set u"
  using set_drop_subset [of _ u]
  by (auto simp: split_scheme_def split: option.splits if_splits)

lemma urlparse_netloc:
  assumes "urlparse E u = Inr p"
  shows "host_port E (netloc p)"
proof -
  let ?u2 = "filter (\<lambda>c. c \<notin> set UNSAFE_URL_BYTES_TO_REMOVE)
               (dropWhile WHATWG_C0_CONTROL_OR_SPACE u)"
  obtain sch u3 where s: "split_scheme ?u2 = (sch, u3)" by (cases "split_scheme ?u2")
  have u3: "\<forall>c\<in>set u3. c \<notin> set UNSAFE_URL_BYTES_TO_REMOVE"
    using split_scheme_chars [OF s] by auto
  show ?thesis
  proof (cases "take 2 u3 = ''//''")
    case False
    then have "netloc p = []"
      using assms by (auto simp: urlparse_def s Let_def split_beta)
    then show ?thesis by (simp add: host_port_def netloc_brackets_ok_def)
  next
    case True
    let ?nl = "takeWhile (\<lambda>c. c \<notin> set ''/?#'') (drop 2 u3)"
    have nl: "netloc p = ?nl" and ok: "netloc_brackets_ok E ?nl"
      using assms True by (auto simp: urlparse_def s Let_def split_beta splitnetloc_def split: if_splits)
    have a: "\<forall>c\<in>set ?nl. c \<notin> set ''/?#'' \<and> c \<notin> set UNSAFE_URL_BYTES_TO_REMOVE"
    proof
      fix c assume c: "c \<in> set ?nl"
      then have "c \<in> set (drop 2 u3)" and "c \<notin> set ''/?#''"
        using set_takeWhileD [OF c] by auto
      then show "c \<notin> set ''/?#'' \<and> c \<notin> set UNSAFE_URL_BYTES_TO_REMOVE"
        using u3 set_drop_subset [of 2 u3] by auto
    qed
    from a have "list_all (\<lambda>c. c \<notin> set ''/?#'' \<and> c \<notin> set UNSAFE_URL_BYTES_TO_REMOVE) ?nl"
      unfolding list_all_iff .
    then show ?thesis unfolding host_port_def nl using ok by (rule conjI)
  qed
qed

lemma urlencode_credential: "urlencode [(''session_api_key'', k)] = ''session_api_key='' @ quote_plus k"
proof -
  have "quote_plus ''session_api_key'' = ''session_api_key''"
    by (simp add: quote_defs)
  then show ?thesis by (simp add: urlencode_def)
qed

lemma urlencode_credential_chars:
  assumes "c \<in> set (urlencode [(''session_api_key'', k)])"
  shows "c \<noteq> CHR ''#'' \<and> c \<noteq> CHR ''?'' \<and> c \<notin> set UNSAFE_URL_BYTES_TO_REMOVE"
proof -
  from assms have "c \<in> set ''session_api_key='' \<or> c \<in> set (quote_plus k)"
    by (simp only: urlencode_credential set_append Un_iff)
  then show ?thesis
  proof
    assume "c \<in> set ''session_api_key=''"
    moreover have "list_all (\<lambda>c. c \<noteq> CHR ''#'' \<and> c \<noteq> CHR ''?'' \<and> c \<notin> set UNSAFE_URL_BYTES_TO_REMOVE)
        ''session_api_key=''"
      by (simp add: UNSAFE_URL_BYTES_TO_REMOVE_def)
    ultimately show ?thesis unfolding list_all_iff by blast
  next
    assume "c \<in> set (quote_plus k)"
    then show ?thesis using quote_plus_no_delims [of c k]
      by (simp add: UNSAFE_URL_BYTES_TO_REMOVE_def)
  qed
qed

text \<open>The streaming URL with a query, parsed again.\<close>

lemma urlparse_built_url:
  assumes "wsch = ''ws'' \<or> wsch = ''wss''" and "host_port E nl"
    and "CHR ''?'' \<notin> set cid" and "CHR ''#'' \<notin> set cid"
    and "\<forall>c\<in>set q. c \<noteq> CHR ''#'' \<and> c \<noteq> CHR ''?'' \<and> c \<notin> set UNSAFE_URL_BYTES_TO_REMOVE"
  shows "\<exists>p. urlparse E (wsch @ ''://'' @ nl @ ''/sockets/events/'' @ cid @ ''?'' @ q) = Inr p
             \<and> query p = q"
proof -
  let ?f = "filter (\<lambda>c. c \<notin> set UNSAFE_URL_BYTES_TO_REMOVE)"
  let ?pre = "''/sockets/events/'' @ ?f cid"
  let ?rest = "''/sockets/events/'' @ cid @ ''?'' @ q"
  let ?rest' = "?pre @ CHR ''?'' # q"
  have fq: "?f q = q" using assms(5) by (intro filter_True) blast
  have fp: "?f ''/sockets/events/'' = ''/sockets/events/''" and fm: "?f ''?'' = ''?''"
    by (simp_all add: UNSAFE_URL_BYTES_TO_REMOVE_def)
  have f: "?f ?rest = ?rest'"
    using fq fp fm by (simp only: filter_append) simp
  have h: "?rest' = [] \<or> hd ?rest' = CHR ''/''" by simp
  have nh: "CHR ''#'' \<notin> set ?rest'" using assms(4,5) by auto
  have q: "CHR ''?'' \<in> set ?rest'" by simp
  have np: "\<forall>x\<in>set ?pre. x \<noteq> CHR ''?''" using assms(3) by auto
  have "dropWhile (\<lambda>x. x \<noteq> CHR ''?'') ?rest' = CHR ''?'' # q"
    by (rule dropWhile_stop [OF np]) simp
  then have s: "snd (split_first CHR ''?'' ?rest') = q" by (simp add: split_first_def)
  have sch: "wsch \<in> {''http'', ''https'', ''ws'', ''wss''}" using assms(1) by auto
  have "urlparse E (wsch @ ''://'' @ nl @ ?rest) =
          Inr \<lparr>scheme = wsch, netloc = nl, path = fst (split_first CHR ''?'' ?rest'),
               query = snd (split_first CHR ''?'' ?rest'), fragment = []\<rparr>"
    using urlparse_known_scheme [OF sch assms(2) f h nh] q by (simp only: if_True)
  then show ?thesis using s by simp
qed

lemma built_url_no_query:
  assumes "wsch = ''ws'' \<or> wsch = ''wss''" and "host_port E nl" and "CHR ''?'' \<notin> set cid"
  shows "CHR ''?'' \<notin> set (wsch @ ''://'' @ nl @ ''/sockets/events/'' @ cid)"
proof -
  have "CHR ''?'' \<notin> set nl" using host_port_chars(1) [OF assms(2)] by auto
  moreover have "CHR ''?'' \<notin> set wsch" using assms(1) by auto
  ultimately show ?thesis using assms(3) by simp
qed

lemma example_parses:
  "urlparse local_externals ''http://localhost:33545'' =
     Inr \<lparr>scheme = ''http'', netloc = ''localhost:33545'', path = [], query = [], fragment = []\<rparr>"
  "urlparse local_externals ''ftp://host:21'' =
     Inr \<lparr>scheme = ''ftp'', netloc = ''host:21'', path = [], query = [], fragment = []\<rparr>"
  by (simp_all add: url_defs local_externals_def)

lemma example_host_port: "host_port local_externals ''localhost:33545''"
  by (simp add: host_port_def netloc_brackets_ok_def UNSAFE_URL_BYTES_TO_REMOVE_def)

lemma example_names:
  "name vscode_location \<noteq> AGENT_SERVER local_externals"
  "name agent_location = AGENT_SERVER local_externals"
  "name secure_agent_location = AGENT_SERVER local_externals"
  "name ftp_agent_location = AGENT_SERVER local_externals"
  "replace_localhost_hostname_for_docker local_externals u = u"
  "url agent_location = ''http://localhost:33545''"
  "url secure_agent_location = ''https://localhost:33545''"
  "url ftp_agent_location = ''ftp://host:21''"
  by (simp_all add: vscode_location_def agent_location_def secure_agent_location_def
      ftp_agent_location_def local_externals_def)

lemma example_credential:
  "urlencode [(''session_api_key'', ''test-api-key'')] = ''session_api_key=test-api-key''"
  by (simp add: quote_defs)

section \<open>Malformed and mismatched identifiers\<close>

text \<open>
  C8. On the path-prefixed streaming endpoint, when the identifier of the prefix differs
  from the conversation identifier, the only thing the endpoint does is to close the inbound
  connection with code 1008 (policy violation): no conversation lookup, no backend lookup.
\<close>

theorem via_runtime_mismatch_closes_1008:
  "runtime_conversation_id \<noteq> conversation_id \<Longrightarrow>
   fst (websocket_proxy_via_runtime E connect ws runtime_conversation_id conversation_id
          info sb) = [WsClose 1008]"
  by (simp add: websocket_proxy_via_runtime_def ws_close_events WS_1008_POLICY_VIOLATION_def)

theorem via_runtime_mismatch_closes_1008_witness:
  "''abc'' \<noteq> example_conversation_id \<and>
   fst (websocket_proxy_via_runtime local_externals example_connect example_websocket ''abc''
          example_conversation_id example_info_service agent_sandbox_service) = [WsClose 1008]"
  using via_runtime_mismatch_closes_1008 [of "''abc''" example_conversation_id local_externals
      example_connect example_websocket example_info_service agent_sandbox_service]
  by (simp add: example_conversation_id_def)

text \<open>
  C7. When the conversation identifier does not parse as a UUID, each streaming endpoint
  only closes the inbound connection with code 1008, and the request endpoint answers 404
  having called neither collaborator (its list of events is empty).
\<close>

theorem invalid_id_rejected_without_lookup:
  "UUID conversation_id = Inl ValueError \<Longrightarrow>
   fst (websocket_proxy E connect ws conversation_id info sb) = [WsClose 1008] \<and>
   fst (websocket_proxy_via_runtime E connect ws runtime_conversation_id conversation_id
          info sb) = [WsClose 1008] \<and>
   http_proxy E request conversation_id p info sb client =
     ([], Inr \<lparr>content = ''Conversation not found or sandbox not running'',
               status_code = 404, headers = []\<rparr>)"
  by (simp add: websocket_proxy_def websocket_proxy_via_runtime_def websocket_proxy_impl_def
      http_proxy_def get_sandbox_for_conversation_def ws_close_events WS_1008_POLICY_VIOLATION_def)

theorem invalid_id_rejected_without_lookup_witness:
  "UUID ''invalid-uuid'' = Inl ValueError \<and>
   fst (websocket_proxy local_externals example_connect example_websocket ''invalid-uuid''
          example_info_service agent_sandbox_service) = [WsClose 1008] \<and>
   fst (websocket_proxy_via_runtime local_externals example_connect example_websocket
          ''invalid-uuid'' ''invalid-uuid'' example_info_service agent_sandbox_service)
     = [WsClose 1008] \<and>
   http_proxy local_externals example_request ''invalid-uuid'' ''api/vscode/url''
       example_info_service agent_sandbox_service (failing_client ConnectError) =
     ([], Inr \<lparr>content = ''Conversation not found or sandbox not running'',
               status_code = 404, headers = []\<rparr>)"
  using invalid_id_rejected_without_lookup [OF invalid_uuid] invalid_uuid by simp

section \<open>An unavailable backend\<close>

text \<open>
  C1, as the specification states it, asks for status 503 when the conversation record
  exists and the backend descriptor is absent or has no exposed location. At this input
  (the record exists, the backend lookup answers nothing) the forwarder answers 404.
\<close>

theorem absent_backend_is_404_not_503:
  "snd (http_proxy local_externals example_request example_conversation_id ''api/vscode/url''
          example_info_service no_sandbox_service (failing_client ConnectError)) =
     Inr \<lparr>content = ''Conversation not found or sandbox not running'', status_code = 404,
          headers = []\<rparr>
   \<and> snd (http_proxy local_externals example_request example_conversation_id ''api/vscode/url''
          example_info_service no_sandbox_service (failing_client ConnectError)) \<noteq>
     Inr \<lparr>content = ''Agent server not available'', status_code = 503, headers = []\<rparr>"
  by (simp add: http_proxy_def get_sandbox_for_conversation_def example_uuid
      example_info_service_def no_sandbox_service_def)

text \<open>
  C1, amended. When the conversation record exists and the backend descriptor is absent, or
  present with no exposed locations (\<^verbatim>\<open>None\<close> or the empty list), the forwarder answers 404
  with the text "Conversation not found or sandbox not running", after the two lookups and
  without any outbound call.
\<close>

theorem unavailable_backend_is_404:
  assumes "UUID conversation_id = Inr u" and "info u = Some ci"
    and "case sb (sandbox_id ci) of
           None \<Rightarrow> True
         | Some s \<Rightarrow> exposed_urls s = None \<or> exposed_urls s = Some []"
  shows "http_proxy E request conversation_id p info sb client =
           ([GetAppConversationInfo u, GetSandbox (sandbox_id ci)],
            Inr \<lparr>content = ''Conversation not found or sandbox not running'',
                 status_code = 404, headers = []\<rparr>)"
  using assms
  by (auto simp: http_proxy_def get_sandbox_for_conversation_def split: option.splits)

theorem unavailable_backend_is_404_witness:
  "UUID example_conversation_id = Inr 1512366075204170929049582354406559215 \<and>
   example_info_service 1512366075204170929049582354406559215 = Some \<lparr>sandbox_id = ''sandbox-123''\<rparr> \<and>
   no_sandbox_service ''sandbox-123'' = None \<and>
   http_proxy local_externals example_request example_conversation_id ''api/vscode/url''
       example_info_service no_sandbox_service (failing_client ConnectError) =
     ([GetAppConversationInfo 1512366075204170929049582354406559215, GetSandbox ''sandbox-123''],
      Inr \<lparr>content = ''Conversation not found or sandbox not running'',
           status_code = 404, headers = []\<rparr>)"
  using unavailable_backend_is_404 [of example_conversation_id
      1512366075204170929049582354406559215 example_info_service
      "\<lparr>sandbox_id = ''sandbox-123''\<rparr>" no_sandbox_service local_externals example_request
      "''api/vscode/url''" "failing_client ConnectError"]
  by (simp add: example_uuid example_info_service_def no_sandbox_service_def)

text \<open>
  C2, as the specification states it, asks for close code 1013 when the backend descriptor
  has exposed locations but none named for the agent service. At this input (the only
  exposed location is named VSCODE) the relay closes with 1011 and never with 1013.
\<close>

theorem missing_agent_location_is_1011_not_1013:
  "fst (websocket_proxy local_externals example_connect example_websocket example_conversation_id
          example_info_service vscode_sandbox_service) =
     [GetAppConversationInfo 1512366075204170929049582354406559215, GetSandbox ''sandbox-123'',
      WsClose 1011]
   \<and> WsClose 1013 \<notin> set (fst (websocket_proxy local_externals example_connect example_websocket
          example_conversation_id example_info_service vscode_sandbox_service))"
  by (simp add: websocket_proxy_def websocket_proxy_impl_def example_uuid example_info_service_def
      vscode_sandbox_service_def local_externals_def ws_close_def WS_1011_INTERNAL_ERROR_def)

text \<open>
  C2, amended. When the resolved backend descriptor has a non-empty list of exposed
  locations and none of them is named for the primary agent service, the relay closes the
  inbound connection with the internal-error close code 1011, after the two lookups and
  without accepting the connection.
\<close>

theorem missing_agent_location_closes_1011:
  assumes "UUID conversation_id = Inr u" and "info u = Some ci"
    and "sb (sandbox_id ci) = Some s"
    and "exposed_urls s = Some us" and "us \<noteq> []"
    and "\<forall>x\<in>set us. name x \<noteq> AGENT_SERVER E"
  shows "fst (websocket_proxy E connect ws conversation_id info sb) =
           [GetAppConversationInfo u, GetSandbox (sandbox_id ci), WsClose 1011]"
  using assms
  by (simp add: websocket_proxy_def websocket_proxy_impl_def ws_url_no_agent_server
      ws_close_def WS_1011_INTERNAL_ERROR_def split: prod.splits)

theorem missing_agent_location_closes_1011_witness:
  "UUID example_conversation_id = Inr 1512366075204170929049582354406559215 \<and>
   example_info_service 1512366075204170929049582354406559215 = Some \<lparr>sandbox_id = ''sandbox-123''\<rparr> \<and>
   vscode_sandbox_service ''sandbox-123'' =
     Some \<lparr>exposed_urls =
             Some [\<lparr>name = ''VSCODE'', url = ''http://localhost:8080'', port = 8080\<rparr>],
           session_api_key = None\<rparr> \<and>
   ''VSCODE'' \<noteq> AGENT_SERVER local_externals \<and>
   fst (websocket_proxy local_externals example_connect
          \<lparr>client_in = [], close_raises = Some RuntimeError\<rparr> example_conversation_id
          example_info_service vscode_sandbox_service) =
     [GetAppConversationInfo 1512366075204170929049582354406559215, GetSandbox ''sandbox-123'',
      WsClose 1011]"
  using missing_agent_location_closes_1011 [of example_conversation_id
      1512366075204170929049582354406559215 example_info_service
      "\<lparr>sandbox_id = ''sandbox-123''\<rparr>" vscode_sandbox_service
      "\<lparr>exposed_urls =
             Some [\<lparr>name = ''VSCODE'', url = ''http://localhost:8080'', port = 8080\<rparr>],
           session_api_key = None\<rparr>"
      "[\<lparr>name = ''VSCODE'', url = ''http://localhost:8080'', port = 8080\<rparr>]"
      local_externals example_connect "\<lparr>client_in = [], close_raises = Some RuntimeError\<rparr>"]
  by (simp add: example_uuid example_info_service_def vscode_sandbox_service_def
      local_externals_def)

section \<open>The request forwarder: faults and headers\<close>

text \<open>
  C5. For a forward request with a resolved target (the lookup gave a sandbox with an
  agent-server base URL) whose body could be read, when the outbound call, made with the
  timeout of 60, raises an exception \<open>e\<close>, the forwarder returns a response and no exception
  leaves it: status 504 when \<open>e\<close> is a timeout, 503 when it is a connection error, 500 for
  every other exception.
\<close>

theorem outbound_fault_status:
  assumes "get_sandbox_for_conversation cid info sb = (ev0, Inr (Some sandbox))"
    and "get_agent_server_base_url E (the (exposed_urls sandbox)) = Some base_url"
    and "base_url \<noteq> []"
    and "req_body request = Inr body"
    and "\<And>orq. out_timeout orq = 60 \<Longrightarrow> client orq = Inl e"
    and "is_Exception e"
  shows "\<exists>r. snd (http_proxy E request cid p info sb client) = Inr r \<and>
             status_code r = (if e = TimeoutException then 504
                              else if e = ConnectError then 503 else 500)"
proof -
  from http_proxy_resolved [OF assms(1,2,3), of request p client]
  obtain target hs where
    H: "http_proxy E request cid p info sb client =
             (ev0 @ fst (forward client request target hs),
              case snd (forward client request target hs) of
                Inr response \<Rightarrow> Inr response
              | Inl e \<Rightarrow>
                  if e = TimeoutException
                  then Inr \<lparr>content = ''Gateway timeout'', status_code = 504, headers = []\<rparr>
                  else if e = ConnectError
                  then Inr \<lparr>content = ''Agent server unavailable'', status_code = 503,
                           headers = []\<rparr>
                  else if is_Exception e
                  then Inr \<lparr>content = ''Internal proxy error'', status_code = 500,
                           headers = []\<rparr>
                  else Inl e)"
    by blast
  have "snd (forward client request target hs) = Inl e"
    using assms(4) assms(5) by (simp add: forward_def Let_def)
  then show ?thesis using assms(6) by (simp add: H)
qed

theorem outbound_fault_status_witness:
  "get_sandbox_for_conversation example_conversation_id example_info_service agent_sandbox_service =
     ([GetAppConversationInfo 1512366075204170929049582354406559215, GetSandbox ''sandbox-123''],
      Inr (Some example_sandbox)) \<and>
   get_agent_server_base_url local_externals (the (exposed_urls example_sandbox)) =
     Some ''http://localhost:33545'' \<and>
   req_body example_request = Inr [] \<and>
   failing_client TimeoutException example_outbound = Inl TimeoutException \<and>
   is_Exception TimeoutException \<and>
   (\<exists>r. snd (http_proxy local_externals example_request example_conversation_id ''api/vscode/url''
         example_info_service agent_sandbox_service (failing_client TimeoutException)) = Inr r
       \<and> status_code r = 504)"
  using outbound_fault_status [of example_conversation_id example_info_service agent_sandbox_service
      "[GetAppConversationInfo 1512366075204170929049582354406559215, GetSandbox ''sandbox-123'']"
      example_sandbox local_externals "''http://localhost:33545''" example_request "[]"
      "failing_client TimeoutException" TimeoutException "''api/vscode/url''"]
  by (simp add: example_resolution example_base_url example_sandbox_fields example_request_def
      failing_client_def)

text \<open>
  C6. In every forward call, no header of the outbound request and no header of the
  returned response has a name whose lower-case form is in the hop-by-hop block list.
\<close>

theorem hop_by_hop_headers_absent:
  "(HttpxRequest orq \<in> set (fst (http_proxy E request cid p info sb client))
      \<and> (n, v) \<in> set (out_headers orq) \<longrightarrow> lower n \<notin> HOP_BY_HOP_HEADERS) \<and>
   (snd (http_proxy E request cid p info sb client) = Inr r \<and> (n', v') \<in> set (headers r)
      \<longrightarrow> lower n' \<notin> HOP_BY_HOP_HEADERS)"
proof -
  obtain ev0 looked where L: "get_sandbox_for_conversation cid info sb = (ev0, looked)"
    by (cases "get_sandbox_for_conversation cid info sb")
  have ev0: "HttpxRequest orq \<notin> set ev0"
    using lookup_events_no_request [of orq cid info sb] by (simp add: L)
  show ?thesis
  proof (cases "\<exists>sandbox base_url. looked = Inr (Some sandbox) \<and>
            get_agent_server_base_url E (the (exposed_urls sandbox)) = Some base_url \<and> base_url \<noteq> []")
    case False
    from http_proxy_unresolved [OF L False, of request p client] ev0
    show ?thesis by auto
  next
    case True
    then obtain sandbox base_url where R: "looked = Inr (Some sandbox)"
      "get_agent_server_base_url E (the (exposed_urls sandbox)) = Some base_url" "base_url \<noteq> []"
      by blast
    from http_proxy_resolved [OF L [unfolded R(1)] R(2,3), of request p client]
    obtain target hs where hs: "\<And>n v. (n, v) \<in> set hs \<Longrightarrow> lower n \<notin> HOP_BY_HOP_HEADERS"
      and H: "http_proxy E request cid p info sb client =
             (ev0 @ fst (forward client request target hs),
              case snd (forward client request target hs) of
                Inr response \<Rightarrow> Inr response
              | Inl e \<Rightarrow>
                  if e = TimeoutException
                  then Inr \<lparr>content = ''Gateway timeout'', status_code = 504, headers = []\<rparr>
                  else if e = ConnectError
                  then Inr \<lparr>content = ''Agent server unavailable'', status_code = 503,
                           headers = []\<rparr>
                  else if is_Exception e
                  then Inr \<lparr>content = ''Internal proxy error'', status_code = 500,
                           headers = []\<rparr>
                  else Inl e)"
      by blast
    have req: "HttpxRequest orq \<in> set (fst (http_proxy E request cid p info sb client))
      \<and> (n, v) \<in> set (out_headers orq) \<longrightarrow> lower n \<notin> HOP_BY_HOP_HEADERS"
    proof
      assume a: "HttpxRequest orq \<in> set (fst (http_proxy E request cid p info sb client))
        \<and> (n, v) \<in> set (out_headers orq)"
      then have "HttpxRequest orq \<in> set (fst (forward client request target hs))"
        using ev0 by (simp add: H)
      then have "out_headers orq = hs" by (rule forward_request_headers)
      then show "lower n \<notin> HOP_BY_HOP_HEADERS" using a hs by auto
    qed
    have resp: "snd (http_proxy E request cid p info sb client) = Inr r \<and> (n', v') \<in> set (headers r)
      \<longrightarrow> lower n' \<notin> HOP_BY_HOP_HEADERS"
    proof
      assume a: "snd (http_proxy E request cid p info sb client) = Inr r \<and> (n', v') \<in> set (headers r)"
      show "lower n' \<notin> HOP_BY_HOP_HEADERS"
      proof (cases "snd (forward client request target hs)")
        case (Inr response)
        then have "r = response" using a by (simp add: H)
        then show ?thesis using forward_response_headers [OF Inr [folded \<open>r = response\<close>]] a by blast
      next
        case (Inl e)
        then have "headers r = []" using a by (auto simp: H split: if_splits)
        then show ?thesis using a by simp
      qed
    qed
    from req resp show ?thesis by blast
  qed
qed

theorem hop_by_hop_headers_absent_witness:
  "HttpxRequest example_outbound \<in>
     set (fst (http_proxy local_externals example_request example_conversation_id ''api/vscode/url''
            example_info_service agent_sandbox_service example_client)) \<and>
   (''accept'', ''*/*'') \<in> set (out_headers example_outbound) \<and>
   lower ''accept'' \<notin> HOP_BY_HOP_HEADERS \<and>
   snd (http_proxy local_externals example_request example_conversation_id ''api/vscode/url''
            example_info_service agent_sandbox_service example_client) =
     Inr \<lparr>content = ''{}'', status_code = 200,
          headers = [(''content-type'', ''application/json'')]\<rparr> \<and>
   lower ''content-type'' \<notin> HOP_BY_HOP_HEADERS"
  using hop_by_hop_headers_absent [of example_outbound local_externals example_request example_conversation_id
      "''api/vscode/url''" example_info_service agent_sandbox_service example_client
      "''accept''" "''*/*''"
      "\<lparr>content = ''{}'', status_code = 200, headers = [(''content-type'', ''application/json'')]\<rparr>"
      "''content-type''" "''application/json''"]
  by (simp add: example_forward example_outbound_def)

section \<open>The relay when the client disconnects first\<close>

text \<open>
  C9. In a streaming session whose backend connection was opened, when the client-to-server
  pump meets \<^verbatim>\<open>WebSocketDisconnect\<close> while the backend pump is still suspended in its loop,
  the relay cancels the backend-to-client pump, awaits it, leaves the backend connection
  and returns (state \<open>Closed\<close>, no exception leaves the call). The awaited task ends with
  \<^verbatim>\<open>CancelledError\<close>, which the loop over the pending tasks passes over.
\<close>

theorem client_disconnect_drains:
  assumes "UUID cid = Inr u" and "info u = Some ci" and "sb (sandbox_id ci) = Some s"
    and "exposed_urls s = Some us" and "us \<noteq> []"
    and "get_agent_server_ws_url E us cid (session_api_key s) = Inr (Some ws_url)"
    and "\<And>h. connect ws_url h = Inr (map Message ms)"
    and "client_in ws = map Inr msgs @ Inl WebSocketDisconnect # later"
  shows "(\<exists>evs. websocket_proxy E connect ws cid info sb =
            (evs @ [TaskCancel ServerToClient, TaskAwait ServerToClient, ServerClose], Closed))
         \<and> cancelled ServerToClient = Raised CancelledError"
proof -
  from relay_client_disconnects [of connect ws_url ms ws msgs later "session_api_key s"] assms(7,8)
  obtain evs where R: "relay connect ws ws_url (session_api_key s) =
      (evs @ [TaskCancel ServerToClient, TaskAwait ServerToClient, ServerClose], Closed)"
    by blast
  have ne: "ws_url \<noteq> []" using assms(6) by (rule ws_url_not_empty)
  have "websocket_proxy E connect ws cid info sb =
          (([GetAppConversationInfo u, GetSandbox (sandbox_id ci), WsAccept] @ evs)
             @ [TaskCancel ServerToClient, TaskAwait ServerToClient, ServerClose], Closed)"
    using assms(1-6) ne by (simp add: websocket_proxy_def websocket_proxy_impl_def R)
  then show ?thesis using cancelled_server_pump by blast
qed

theorem client_disconnect_drains_witness:
  "UUID example_conversation_id = Inr 1512366075204170929049582354406559215 \<and>
   example_info_service 1512366075204170929049582354406559215 = Some \<lparr>sandbox_id = ''sandbox-123''\<rparr> \<and>
   agent_sandbox_service ''sandbox-123'' = Some example_sandbox \<and>
   get_agent_server_ws_url local_externals example_locations example_conversation_id
     (session_api_key example_sandbox) = Inr (Some example_ws_url) \<and>
   example_connect example_ws_url [(''X-Session-API-Key'', ''test-api-key'')] =
     Inr (map Message [Text ''event'']) \<and>
   client_in example_websocket = map Inr [''ping''] @ Inl WebSocketDisconnect # [] \<and>
   (\<exists>evs. websocket_proxy local_externals example_connect example_websocket
           example_conversation_id example_info_service agent_sandbox_service =
         (evs @ [TaskCancel ServerToClient, TaskAwait ServerToClient, ServerClose], Closed))"
  using client_disconnect_drains [of example_conversation_id 1512366075204170929049582354406559215 example_info_service
      "\<lparr>sandbox_id = ''sandbox-123''\<rparr>" agent_sandbox_service example_sandbox
      example_locations local_externals example_ws_url
      example_connect "[Text ''event'']" example_websocket "[''ping'']" "[]"]
  by (simp add: example_uuid example_info_service_def agent_sandbox_service_def
      example_sandbox_fields example_ws_url_built example_connect_def example_websocket_def)

section \<open>The streaming URL\<close>

text \<open>
  C3. For the first exposed location named for the agent service, with a base URL (the
  location's URL after the hostname rewrite) \<open>http://host:port\<close>, the builder returns exactly
  \<open>ws://host:port/sockets/events/{conversation id}\<close>, and with \<open>https://host:port\<close> exactly
  \<open>wss://host:port/sockets/events/{conversation id}\<close>; after it comes only the credential
  query, and nothing at all when no credential is given.
\<close>

theorem ws_url_scheme_mapping:
  assumes "\<forall>x\<in>set pre. name x \<noteq> AGENT_SERVER E" and "name e = AGENT_SERVER E"
    and "host_port E hp"
  shows "(replace_localhost_hostname_for_docker E (url e) = ''http://'' @ hp \<longrightarrow>
            get_agent_server_ws_url E (pre @ e # post) cid key =
              Inr (Some (''ws://'' @ hp @ ''/sockets/events/'' @ cid
                         @ (case key of
                              None \<Rightarrow> []
                            | Some k \<Rightarrow> if k \<noteq> [] then ''?'' @ urlencode [(''session_api_key'', k)]
                                        else []))))
       \<and> (replace_localhost_hostname_for_docker E (url e) = ''https://'' @ hp \<longrightarrow>
            get_agent_server_ws_url E (pre @ e # post) cid key =
              Inr (Some (''wss://'' @ hp @ ''/sockets/events/'' @ cid
                         @ (case key of
                              None \<Rightarrow> []
                            | Some k \<Rightarrow> if k \<noteq> [] then ''?'' @ urlencode [(''session_api_key'', k)]
                                        else []))))"
proof -
  have a: "urlparse E (''http://'' @ hp) =
      Inr \<lparr>scheme = ''http'', netloc = hp, path = [], query = [], fragment = []\<rparr>"
    using urlparse_http [of "''http''" E hp] assms(3) by simp
  have b: "urlparse E (''https://'' @ hp) =
      Inr \<lparr>scheme = ''https'', netloc = hp, path = [], query = [], fragment = []\<rparr>"
    using urlparse_http [of "''https''" E hp] assms(3) by simp
  show ?thesis
  proof (intro conjI impI)
    assume u: "replace_localhost_hostname_for_docker E (url e) = ''http://'' @ hp"
    show "get_agent_server_ws_url E (pre @ e # post) cid key =
              Inr (Some (''ws://'' @ hp @ ''/sockets/events/'' @ cid
                         @ (case key of
                              None \<Rightarrow> []
                            | Some k \<Rightarrow> if k \<noteq> [] then ''?'' @ urlencode [(''session_api_key'', k)]
                                        else [])))"
      using ws_url_shape [OF assms(1,2) a [folded u], of post cid key] by simp
  next
    assume u: "replace_localhost_hostname_for_docker E (url e) = ''https://'' @ hp"
    show "get_agent_server_ws_url E (pre @ e # post) cid key =
              Inr (Some (''wss://'' @ hp @ ''/sockets/events/'' @ cid
                         @ (case key of
                              None \<Rightarrow> []
                            | Some k \<Rightarrow> if k \<noteq> [] then ''?'' @ urlencode [(''session_api_key'', k)]
                                        else [])))"
      using ws_url_shape [OF assms(1,2) b [folded u], of post cid key] by simp
  qed
qed

theorem ws_url_scheme_mapping_witness:
  "name vscode_location \<noteq> AGENT_SERVER local_externals \<and>
   name agent_location = AGENT_SERVER local_externals \<and>
   name secure_agent_location = AGENT_SERVER local_externals \<and>
   host_port local_externals ''localhost:33545'' \<and>
   replace_localhost_hostname_for_docker local_externals (url agent_location) =
     ''http://'' @ ''localhost:33545'' \<and>
   replace_localhost_hostname_for_docker local_externals (url secure_agent_location) =
     ''https://'' @ ''localhost:33545'' \<and>
   get_agent_server_ws_url local_externals [vscode_location, agent_location] ''abc123''
       (Some ''test-api-key'') =
     Inr (Some ''ws://localhost:33545/sockets/events/abc123?session_api_key=test-api-key'') \<and>
   get_agent_server_ws_url local_externals [vscode_location, agent_location] ''abc123'' None =
     Inr (Some ''ws://localhost:33545/sockets/events/abc123'') \<and>
   get_agent_server_ws_url local_externals [vscode_location, secure_agent_location] ''abc123'' None =
     Inr (Some ''wss://localhost:33545/sockets/events/abc123'')"
  using ws_url_scheme_mapping [of "[vscode_location]" local_externals agent_location
      "''localhost:33545''" "[]" "''abc123''" "Some ''test-api-key''"]
    ws_url_scheme_mapping [of "[vscode_location]" local_externals agent_location
      "''localhost:33545''" "[]" "''abc123''" None]
    ws_url_scheme_mapping [of "[vscode_location]" local_externals secure_agent_location
      "''localhost:33545''" "[]" "''abc123''" None]
  by (simp add: example_names example_host_port example_credential)

text \<open>
  C10, as the specification states it, says that for every base URL whose scheme is neither
  \<open>http\<close> nor \<open>https\<close> the builder returns a URL with scheme \<open>ws\<close> rather than rejecting the
  input. The base URL \<open>ftp://[::1\<close> has the scheme \<open>ftp\<close> and an unmatched bracket:
  \<^verbatim>\<open>urlparse\<close> raises \<^verbatim>\<open>ValueError\<close>, the builder does not catch it, and no URL is returned.
\<close>

theorem unmatched_bracket_is_rejected:
  "get_agent_server_ws_url local_externals [unmatched_bracket_location] ''abc123'' None =
     Inl ValueError"
  by (simp add: unmatched_bracket_location_def local_externals_def url_defs)

text \<open>
  C10, amended. For every base URL that \<^verbatim>\<open>urlparse\<close> accepts: when its scheme is anything
  but \<open>https\<close> (\<open>ftp\<close>, an empty scheme, also \<open>http\<close>), the builder does not reject it and
  returns a URL that starts with \<open>ws://\<close>; only the scheme \<open>https\<close> gives \<open>wss://\<close>.
\<close>

theorem other_schemes_give_ws:
  assumes "\<forall>x\<in>set pre. name x \<noteq> AGENT_SERVER E" and "name e = AGENT_SERVER E"
    and "urlparse E (replace_localhost_hostname_for_docker E (url e)) = Inr parsed"
  shows "(scheme parsed \<noteq> ''https'' \<longrightarrow>
           get_agent_server_ws_url E (pre @ e # post) cid key =
             Inr (Some (''ws://'' @ netloc parsed @ ''/sockets/events/'' @ cid
                        @ (case key of
                             None \<Rightarrow> []
                           | Some k \<Rightarrow> if k \<noteq> [] then ''?'' @ urlencode [(''session_api_key'', k)]
                                       else []))))
       \<and> (scheme parsed = ''https'' \<longrightarrow>
           get_agent_server_ws_url E (pre @ e # post) cid key =
             Inr (Some (''wss://'' @ netloc parsed @ ''/sockets/events/'' @ cid
                        @ (case key of
                             None \<Rightarrow> []
                           | Some k \<Rightarrow> if k \<noteq> [] then ''?'' @ urlencode [(''session_api_key'', k)]
                                       else []))))"
  using ws_url_shape [OF assms, of post cid key] by simp

theorem other_schemes_give_ws_witness:
  "name vscode_location \<noteq> AGENT_SERVER local_externals \<and>
   name ftp_agent_location = AGENT_SERVER local_externals \<and>
   urlparse local_externals
       (replace_localhost_hostname_for_docker local_externals (url ftp_agent_location)) =
     Inr \<lparr>scheme = ''ftp'', netloc = ''host:21'', path = [], query = [], fragment = []\<rparr> \<and>
   ''ftp'' \<noteq> ''https'' \<and>
   get_agent_server_ws_url local_externals [vscode_location, ftp_agent_location] ''abc123'' None =
     Inr (Some ''ws://host:21/sockets/events/abc123'')"
  using other_schemes_give_ws [of "[vscode_location]" local_externals ftp_agent_location
      "\<lparr>scheme = ''ftp'', netloc = ''host:21'', path = [], query = [], fragment = []\<rparr>"
      "[]" "''abc123''" None]
  by (simp add: example_names example_parses)

text \<open>
  C4, as the specification states it, asks for exactly one query parameter whenever a
  credential is present and for no query string when it is absent. With the empty string as
  credential the URL has no query string; and with no credential, a conversation identifier
  that contains a question mark gives a URL with one.
\<close>

theorem empty_credential_gives_no_query:
  "get_agent_server_ws_url local_externals example_locations ''abc123'' (Some []) =
     Inr (Some ''ws://localhost:33545/sockets/events/abc123'')
   \<and> CHR ''?'' \<notin> set ''ws://localhost:33545/sockets/events/abc123''
   \<and> get_agent_server_ws_url local_externals example_locations ''abc?x=1'' None =
     Inr (Some ''ws://localhost:33545/sockets/events/abc?x=1'')"
  by (simp add: example_locations_def example_names example_parses)

text \<open>
  C4, amended. For a conversation identifier without \<open>?\<close> and \<open>#\<close> and a base URL that
  parses: when the credential is a non-empty string, the streaming URL has the query
  \<open>session_api_key=\<close> followed by the percent-encoded credential, which reads back as exactly
  one parameter, named \<open>session_api_key\<close>, whose value is the credential (its UTF-8 bytes); when
  the credential is absent or the empty string, the URL contains no \<open>?\<close>.
\<close>

theorem credential_is_the_only_query_parameter:
  assumes "\<forall>x\<in>set pre. name x \<noteq> AGENT_SERVER E" and "name e = AGENT_SERVER E"
    and "urlparse E (replace_localhost_hostname_for_docker E (url e)) = Inr parsed"
    and "CHR ''?'' \<notin> set cid" and "CHR ''#'' \<notin> set cid"
  shows "(k \<noteq> [] \<longrightarrow>
           (\<exists>u p. get_agent_server_ws_url E (pre @ e # post) cid (Some k) = Inr (Some u)
                  \<and> urlparse E u = Inr p
                  \<and> query p = ''session_api_key='' @ quote_plus k
                  \<and> parse_qsl (query p) = [(''session_api_key'', utf8_encode k)]))
       \<and> (\<exists>u. get_agent_server_ws_url E (pre @ e # post) cid None = Inr (Some u)
              \<and> CHR ''?'' \<notin> set u)
       \<and> (\<exists>u. get_agent_server_ws_url E (pre @ e # post) cid (Some []) = Inr (Some u)
              \<and> CHR ''?'' \<notin> set u)"
proof -
  let ?wsch = "if scheme parsed = ''https'' then ''wss'' else ''ws''"
  let ?base = "?wsch @ ''://'' @ netloc parsed @ ''/sockets/events/'' @ cid"
  have w: "?wsch = ''ws'' \<or> ?wsch = ''wss''" by simp
  have hp: "host_port E (netloc parsed)" using assms(3) by (rule urlparse_netloc)
  have nq: "CHR ''?'' \<notin> set ?base" using built_url_no_query [OF w hp assms(4)] by simp
  have none: "get_agent_server_ws_url E (pre @ e # post) cid None = Inr (Some ?base)"
    using ws_url_shape [OF assms(1,2,3), of post cid None] by simp
  have empty: "get_agent_server_ws_url E (pre @ e # post) cid (Some []) = Inr (Some ?base)"
    using ws_url_shape [OF assms(1,2,3), of post cid "Some []"] by simp
  have some: "\<exists>u p. get_agent_server_ws_url E (pre @ e # post) cid (Some k) = Inr (Some u)
                  \<and> urlparse E u = Inr p
                  \<and> query p = ''session_api_key='' @ quote_plus k
                  \<and> parse_qsl (query p) = [(''session_api_key'', utf8_encode k)]" if k: "k \<noteq> []"
  proof -
    let ?q = "urlencode [(''session_api_key'', k)]"
    have b: "get_agent_server_ws_url E (pre @ e # post) cid (Some k) =
        Inr (Some (?wsch @ ''://'' @ netloc parsed @ ''/sockets/events/'' @ cid @ ''?'' @ ?q))"
      using ws_url_shape [OF assms(1,2,3), of post cid "Some k"] k by simp
    have qc: "\<forall>c\<in>set ?q. c \<noteq> CHR ''#'' \<and> c \<noteq> CHR ''?'' \<and> c \<notin> set UNSAFE_URL_BYTES_TO_REMOVE"
      using urlencode_credential_chars by blast
    from urlparse_built_url [OF w hp assms(4,5) qc]
    obtain p where p: "urlparse E (?wsch @ ''://'' @ netloc parsed @ ''/sockets/events/'' @ cid
         @ ''?'' @ ?q) = Inr p" "query p = ?q"
      by blast
    have "parse_qsl (query p) = [(''session_api_key'', utf8_encode k)]"
      using parse_qsl_credential [OF k] p(2) by simp
    then show ?thesis using b p urlencode_credential by metis
  qed
  from none empty some nq show ?thesis by blast
qed

theorem credential_is_the_only_query_parameter_witness:
  "name agent_location = AGENT_SERVER local_externals \<and>
   urlparse local_externals
       (replace_localhost_hostname_for_docker local_externals (url agent_location)) =
     Inr \<lparr>scheme = ''http'', netloc = ''localhost:33545'', path = [], query = [], fragment = []\<rparr> \<and>
   CHR ''?'' \<notin> set ''abc123'' \<and> CHR ''#'' \<notin> set ''abc123'' \<and> ''test-api-key'' \<noteq> [] \<and>
   (\<exists>u p. get_agent_server_ws_url local_externals ([] @ agent_location # []) ''abc123''
             (Some ''test-api-key'') = Inr (Some u)
          \<and> urlparse local_externals u = Inr p
          \<and> query p = ''session_api_key='' @ quote_plus ''test-api-key''
          \<and> parse_qsl (query p) = [(''session_api_key'', utf8_encode ''test-api-key'')])"
  using credential_is_the_only_query_parameter [of "[]" local_externals agent_location
      "\<lparr>scheme = ''http'', netloc = ''localhost:33545'', path = [], query = [], fragment = []\<rparr>"
      "''abc123''" "''test-api-key''" "[]"]
  by (simp add: example_names example_parses)

end
